theory Spec2Isabelle
  imports Complex_Main "HOL-Library.Word"
begin

section \<open>JavaScript values\<close>

text \<open>
  The scripts \<^verbatim>\<open>scripts/generate-farcaster-auth.js\<close> (real Ed25519 signatures),
  \<^verbatim>\<open>scripts/verify-farcaster-signature.js\<close> and the placeholder generator are embedded
  function by function. A JavaScript string is a \<open>string\<close>: one \<open>char\<close> per UTF-16 code
  unit, so the embedding covers the strings whose code units are below 256. A
  \<^verbatim>\<open>Uint8Array\<close> or \<^verbatim>\<open>Buffer\<close> is a list of 8-bit words.
\<close>

type_synonym byte = "8 word"
type_synonym bytes = "byte list"

text \<open>
  The values that \<^verbatim>\<open>JSON.parse\<close> builds and that the scripts pass around. \<open>JNum\<close> is a
  finite number (read by its value), \<open>JNaN\<close> is \<^verbatim>\<open>NaN\<close>. An array carries its elements
  and the named (non-index) properties that an assignment may have put on it. An object
  is the list of its own properties in property order.
\<close>

datatype jsval =
    JUndefined
  | JNull
  | JBool bool
  | JNum rat
  | JNaN
  | JStr string
  | JArr "jsval list" "(string \<times> jsval) list"
  | JObj "(string \<times> jsval) list"

text \<open>What a \<^verbatim>\<open>throw\<close> carries; \<open>EngineError\<close> is an exception of the Ed25519 library.\<close>

datatype js_error = TypeError | SyntaxError | EngineError | IOError

section \<open>Codec: hex and bytes\<close>

subsection \<open>\<^verbatim>\<open>parseInt(string, radix)\<close>\<close>

text \<open>
  ECMAScript's \<^verbatim>\<open>parseInt\<close>: leading white space is dropped, then an optional sign, then
  (for radix 16 or no radix) an optional \<^verbatim>\<open>0x\<close>/\<^verbatim>\<open>0X\<close>; the longest prefix of digits of
  the radix is the value. No digit at all is \<^verbatim>\<open>NaN\<close>, here \<open>None\<close>. The value is the
  mathematical integer (the rounding of integers beyond 2^53 to a double is not
  modelled).
\<close>

definition isWhiteSpace :: "char \<Rightarrow> bool" where
  "isWhiteSpace c = (of_char c \<in> {9, 10, 11, 12, 13, 32, 160 :: nat})"

definition digitValue :: "char \<Rightarrow> nat option" where
  "digitValue c =
     (let n = of_char c :: nat in
      if 48 \<le> n \<and> n \<le> 57 then Some (n - 48)
      else if 97 \<le> n \<and> n \<le> 122 then Some (n - 87)
      else if 65 \<le> n \<and> n \<le> 90 then Some (n - 55)
      else None)"

definition isRadixDigit :: "nat \<Rightarrow> char \<Rightarrow> bool" where
  "isRadixDigit R c = (case digitValue c of None \<Rightarrow> False | Some d \<Rightarrow> d < R)"

definition digitsValue :: "nat \<Rightarrow> string \<Rightarrow> nat" where
  "digitsValue R z = foldl (\<lambda>acc c. acc * R + (case digitValue c of None \<Rightarrow> 0 | Some d \<Rightarrow> d)) 0 z"

definition parseInt :: "string \<Rightarrow> nat option \<Rightarrow> int option" where
  "parseInt inputString radix =
     (let S = dropWhile isWhiteSpace inputString;
          sign = (if S \<noteq> [] \<and> hd S = CHR ''-'' then - 1 else 1 :: int);
          S = (if S \<noteq> [] \<and> (hd S = CHR ''+'' \<or> hd S = CHR ''-'') then tl S else S);
          R = (case radix of None \<Rightarrow> 0 | Some r \<Rightarrow> r)
      in if R \<noteq> 0 \<and> (R < 2 \<or> 36 < R) then None
         else
           let stripPrefix = (R = 0 \<or> R = 16);
               R = (if R = 0 then 10 else R);
               hasPrefix = (stripPrefix \<and> (take 2 S = ''0x'' \<or> take 2 S = ''0X''));
               S = (if hasPrefix then drop 2 S else S);
               R = (if hasPrefix then 16 else R);
               Z = takeWhile (isRadixDigit R) S
           in if Z = [] then None else Some (sign * int (digitsValue R Z)))"

subsection \<open>\<^verbatim>\<open>hexToBytes\<close>\<close>

text \<open>
  \<^verbatim>\<open>hex.replace(/^0x/, '')\<close> removes one leading \<^verbatim>\<open>0x\<close>; \<^verbatim>\<open>s.substr(i, 2)\<close> is at most
  two code units from index \<open>i\<close>. A store into a \<^verbatim>\<open>Uint8Array\<close> converts the number to
  a byte (\<^verbatim>\<open>NaN\<close> becomes 0, an integer is taken modulo 256) and is dropped when the
  index is not below the array's length. \<^verbatim>\<open>new Uint8Array(n)\<close> truncates \<open>n\<close> to an
  integer, so the array has \<open>length cleanHex div 2\<close> zero bytes.
\<close>

definition replace_prefix :: "string \<Rightarrow> string \<Rightarrow> string" where
  "replace_prefix p s = (if take (length p) s = p then drop (length p) s else s)"

definition substr :: "string \<Rightarrow> nat \<Rightarrow> nat \<Rightarrow> string" where
  "substr s i n = take n (drop i s)"

definition ToUint8 :: "int option \<Rightarrow> byte" where
  "ToUint8 v = (case v of None \<Rightarrow> 0 | Some n \<Rightarrow> word_of_int n)"

definition typed_set :: "bytes \<Rightarrow> nat \<Rightarrow> int option \<Rightarrow> bytes" where
  "typed_set bs k v = (if k < length bs then bs[k := ToUint8 v] else bs)"

function hexToBytes_loop :: "string \<Rightarrow> nat \<Rightarrow> bytes \<Rightarrow> bytes" where
  "hexToBytes_loop cleanHex i bs =
     (if i < length cleanHex
      then hexToBytes_loop cleanHex (i + 2)
             (typed_set bs (i div 2) (parseInt (substr cleanHex i 2) (Some 16)))
      else bs)"
  by pat_completeness auto
termination
  by (relation "measure (\<lambda>(h, i, bs). length h - i)") auto

declare hexToBytes_loop.simps [simp del]

text \<open>
  The generator's \<^verbatim>\<open>hexToBytes\<close>. Its argument is any value: a value that is not a
  string has no \<^verbatim>\<open>replace\<close> method, and the call throws a \<^verbatim>\<open>TypeError\<close>.
\<close>

definition hexToBytes :: "jsval \<Rightarrow> js_error + bytes" where
  "hexToBytes hex =
     (case hex of
        JStr s \<Rightarrow>
          (let cleanHex = replace_prefix ''0x'' s
           in Inr (hexToBytes_loop cleanHex 0 (replicate (length cleanHex div 2) 0)))
      | _ \<Rightarrow> Inl TypeError)"

text \<open>The verifier's \<^verbatim>\<open>hexToBytes\<close>: the same body inside \<^verbatim>\<open>try\<close>, \<^verbatim>\<open>null\<close> on a throw.\<close>

definition hexToBytes_verifier :: "jsval \<Rightarrow> bytes option" where
  "hexToBytes_verifier hex = (case hexToBytes hex of Inl e \<Rightarrow> None | Inr bs \<Rightarrow> Some bs)"

subsection \<open>\<^verbatim>\<open>bytesToHex\<close>\<close>

text \<open>
  \<^verbatim>\<open>byte.toString(16)\<close> writes a number in radix 16 with the digits
  \<^verbatim>\<open>0123456789abcdef\<close>; \<^verbatim>\<open>padStart(2, '0')\<close> fills a shorter string from the left.
\<close>

definition digitChar :: "nat \<Rightarrow> char" where
  "digitChar d = (if d < 10 then char_of (48 + d) else char_of (87 + d))"

function toString16 :: "nat \<Rightarrow> string" where
  "toString16 n = (if n < 16 then [digitChar n] else toString16 (n div 16) @ [digitChar (n mod 16)])"
  by pat_completeness auto
termination
  by (relation "measure id") auto

declare toString16.simps [simp del]

definition padStart :: "nat \<Rightarrow> char \<Rightarrow> string \<Rightarrow> string" where
  "padStart n c s = replicate (n - length s) c @ s"

definition bytesToHex :: "bytes \<Rightarrow> string" where
  "bytesToHex bs = concat (map (\<lambda>byte. padStart 2 (CHR ''0'') (toString16 (unat byte))) bs)"

text \<open>
  Two auxiliary names for the proofs: the byte that the loop of \<^verbatim>\<open>hexToBytes\<close> stores at
  index \<open>k\<close>, and the two characters \<^verbatim>\<open>bytesToHex\<close> writes for one byte.
\<close>

definition byteAt :: "string \<Rightarrow> nat \<Rightarrow> byte" where
  "byteAt h k = ToUint8 (parseInt (substr h (2 * k) 2) (Some 16))"

definition hex2 :: "byte \<Rightarrow> string" where
  "hex2 b = padStart 2 (CHR ''0'') (toString16 (unat b))"

section \<open>Codec: base64 and UTF-8\<close>

text \<open>
  \<^verbatim>\<open>buf.toString('base64')\<close> is the base64 of RFC 4648 with \<^verbatim>\<open>=\<close> padding. A number
  below 64 is written as one character of the alphabet.
\<close>

definition b64_char :: "nat \<Rightarrow> char" where
  "b64_char n =
     (if n < 26 then char_of (65 + n)
      else if n < 52 then char_of (71 + n)
      else if n < 62 then char_of (n - 4)
      else if n = 62 then CHR ''+'' else CHR ''/'')"

fun base64_encode :: "bytes \<Rightarrow> string" where
  "base64_encode [] = []"
| "base64_encode [a] =
     [b64_char (unat a div 4), b64_char (unat a mod 4 * 16), CHR ''='', CHR ''='']"
| "base64_encode [a, b] =
     [b64_char (unat a div 4), b64_char (unat a mod 4 * 16 + unat b div 16),
      b64_char (unat b mod 16 * 4), CHR ''='']"
| "base64_encode (a # b # c # rest) =
     [b64_char (unat a div 4), b64_char (unat a mod 4 * 16 + unat b div 16),
      b64_char (unat b mod 16 * 4 + unat c div 64), b64_char (unat c mod 64)]
     @ base64_encode rest"

text \<open>
  \<^verbatim>\<open>Buffer.from(s, 'base64')\<close> never throws on a string: Node.js reads the characters of
  the standard and of the URL-safe alphabet, skips every other character and stops at
  the first \<^verbatim>\<open>=\<close>. Four characters give three bytes; two or three left over give one
  or two bytes, one left over gives none.
\<close>

definition unbase64 :: "char \<Rightarrow> nat option" where
  "unbase64 c =
     (let n = of_char c :: nat in
      if 65 \<le> n \<and> n \<le> 90 then Some (n - 65)
      else if 97 \<le> n \<and> n \<le> 122 then Some (n - 71)
      else if 48 \<le> n \<and> n \<le> 57 then Some (n + 4)
      else if c = CHR ''+'' \<or> c = CHR ''-'' then Some 62
      else if c = CHR ''/'' \<or> c = CHR ''_'' then Some 63
      else None)"

fun b64_sextets :: "string \<Rightarrow> nat list" where
  "b64_sextets [] = []"
| "b64_sextets (c # s) =
     (if c = CHR ''='' then []
      else (case unbase64 c of None \<Rightarrow> b64_sextets s | Some n \<Rightarrow> n # b64_sextets s))"

fun b64_groups :: "nat list \<Rightarrow> bytes" where
  "b64_groups (a # b # c # d # rest) =
     [of_nat (a * 4 + b div 16), of_nat (b mod 16 * 16 + c div 4), of_nat (c mod 4 * 64 + d)]
     @ b64_groups rest"
| "b64_groups [a, b, c] = [of_nat (a * 4 + b div 16), of_nat (b mod 16 * 16 + c div 4)]"
| "b64_groups [a, b] = [of_nat (a * 4 + b div 16)]"
| "b64_groups _ = []"

definition base64_decode :: "string \<Rightarrow> bytes" where
  "base64_decode s = b64_groups (b64_sextets s)"

text \<open>
  \<^verbatim>\<open>Buffer.from(string)\<close> and \<^verbatim>\<open>new TextEncoder().encode(string)\<close>: the UTF-8 bytes of the
  string. A code unit below 128 is one byte, one from 128 to 255 is two.
\<close>

definition utf8_encode :: "string \<Rightarrow> bytes" where
  "utf8_encode s =
     concat (map (\<lambda>c. let n = of_char c :: nat in
                        if n < 128 then [of_nat n]
                        else [of_nat (192 + n div 64), of_nat (128 + n mod 64)]) s)"

section \<open>What the scripts take from outside\<close>

text \<open>
  \<^verbatim>\<open>JSON.stringify(v)\<close>, \<^verbatim>\<open>JSON.stringify(v, null, 2)\<close> and \<^verbatim>\<open>JSON.parse\<close> of a UTF-8
  decoded buffer or file (\<open>None\<close> when it throws) are the JavaScript runtime's, and
  parameters of the model. So are two conversions that only the verifier can reach, with
  an association whose fields are not strings: \<^verbatim>\<open>Buffer.from(v, 'base64')\<close> for an array
  or object \<open>v\<close>, and the string that \<^verbatim>\<open>+\<close> makes of a value that is not a string. Both
  may throw.
\<close>

record js_runtime =
  JSON_stringify :: "jsval \<Rightarrow> string"
  JSON_stringify_indent2 :: "jsval \<Rightarrow> string"
  JSON_parse_utf8 :: "bytes \<Rightarrow> jsval option"
  Buffer_from_object :: "jsval \<Rightarrow> js_error + bytes"
  String_of_value :: "jsval \<Rightarrow> js_error + string"

text \<open>
  The library \<^verbatim>\<open>@noble/ed25519\<close> is not part of the repository; its three functions are
  parameters too. Each may throw. The arguments are in the library's order:
  \<^verbatim>\<open>sign(message, privateKey)\<close> and \<^verbatim>\<open>verify(signature, message, publicKey)\<close>.
\<close>

record ed25519 =
  getPublicKey :: "bytes \<Rightarrow> js_error + bytes"
  sign :: "bytes \<Rightarrow> bytes \<Rightarrow> js_error + bytes"
  verify :: "bytes \<Rightarrow> bytes \<Rightarrow> bytes \<Rightarrow> js_error + bool"

text \<open>The calls made into the library, in order, with their arguments.\<close>

datatype crypto_call =
    GetPublicKey bytes
  | Sign bytes bytes
  | Verify bytes bytes bytes

text \<open>
  The manifest file: what \<^verbatim>\<open>readFileSync\<close> finds at a path (\<open>None\<close> when it throws),
  and the paths where \<^verbatim>\<open>writeFileSync\<close> throws.
\<close>

record filesystem =
  contents :: "string \<Rightarrow> bytes option"
  unwritable :: "string \<Rightarrow> bool"

text \<open>
  The module-level \<^verbatim>\<open>config\<close> object. An environment variable is a string or
  \<^verbatim>\<open>undefined\<close>; \<open>manifestPath\<close> is the path after the default has been applied.
\<close>

record config =
  fid :: "string option"
  privateKey :: "string option"
  domain :: "string option"
  manifestPath :: string

definition env_value :: "string option \<Rightarrow> jsval" where
  "env_value v = (case v of None \<Rightarrow> JUndefined | Some s \<Rightarrow> JStr s)"

definition env_ToString :: "string option \<Rightarrow> string" where
  "env_ToString v = (case v of None \<Rightarrow> ''undefined'' | Some s \<Rightarrow> s)"

section \<open>The generator: \<^verbatim>\<open>generate-farcaster-auth.js\<close>\<close>

subsection \<open>\<^verbatim>\<open>validateConfig\<close>\<close>

text \<open>
  \<^verbatim>\<open>!config.fid\<close> holds for \<^verbatim>\<open>undefined\<close> and for the empty string. The regular
  expression \<^verbatim>\<open>/^[a-fA-F0-9]{64}$/\<close> accepts exactly the strings of 64 hexadecimal digits;
  \<^verbatim>\<open>replace(/^https?:\/\//, '')\<close> removes one leading \<^verbatim>\<open>http://\<close> or \<^verbatim>\<open>https://\<close>.
  \<open>Inl n\<close> is \<^verbatim>\<open>process.exit(n)\<close>; \<open>Inr\<close> carries the \<^verbatim>\<open>config\<close> as the function
  leaves it.
\<close>

definition falsy_env :: "string option \<Rightarrow> bool" where
  "falsy_env v = (case v of None \<Rightarrow> True | Some s \<Rightarrow> s = [])"

definition isHexChar :: "char \<Rightarrow> bool" where
  "isHexChar c =
     (let n = of_char c :: nat in
      (97 \<le> n \<and> n \<le> 102) \<or> (65 \<le> n \<and> n \<le> 70) \<or> (48 \<le> n \<and> n \<le> 57))"

definition privateKeyRegex :: "string \<Rightarrow> bool" where
  "privateKeyRegex s = (length s = 64 \<and> list_all isHexChar s)"

definition startsWith :: "string \<Rightarrow> string \<Rightarrow> bool" where
  "startsWith s p = (take (length p) s = p)"

definition strip_protocol :: "string \<Rightarrow> string" where
  "strip_protocol s =
     (if startsWith s ''http://'' then drop 7 s
      else if startsWith s ''https://'' then drop 8 s
      else s)"

definition validateConfig :: "config \<Rightarrow> nat + config" where
  "validateConfig c =
     (let missing =
            (if falsy_env (fid c) then [''FARCASTER_FID''] else [])
          @ (if falsy_env (privateKey c) then [''FARCASTER_PRIVATE_KEY''] else [])
          @ (if falsy_env (domain c) then [''FARCASTER_DOMAIN''] else [])
      in if 0 < length missing then Inl 1
         else if parseInt (env_ToString (fid c)) None = None then Inl 1
         else
           let cleanPrivateKey = replace_prefix ''0x'' (env_ToString (privateKey c))
           in if \<not> privateKeyRegex cleanPrivateKey then Inl 1
              else Inr (c\<lparr>domain := Some (strip_protocol (env_ToString (domain c)))\<rparr>))"

subsection \<open>Header, payload, message, signature\<close>

text \<open>
  \<^verbatim>\<open>createHeader\<close> and \<^verbatim>\<open>createPayload\<close> build an object, serialise it and encode the
  UTF-8 bytes of the text in base64. \<^verbatim>\<open>parseInt(fid)\<close> is a number or \<^verbatim>\<open>NaN\<close>.
\<close>

definition number_value :: "int option \<Rightarrow> jsval" where
  "number_value v = (case v of None \<Rightarrow> JNaN | Some n \<Rightarrow> JNum (of_int n))"

definition createHeader :: "js_runtime \<Rightarrow> string option \<Rightarrow> bytes \<Rightarrow> string" where
  "createHeader rt fid0 publicKey =
     (let header = JObj [(''fid'', number_value (parseInt (env_ToString fid0) None)),
                         (''type'', JStr ''custody''),
                         (''key'', JStr (''0x'' @ bytesToHex publicKey))]
      in base64_encode (utf8_encode (JSON_stringify rt header)))"

definition createPayload :: "js_runtime \<Rightarrow> string option \<Rightarrow> string" where
  "createPayload rt domain0 =
     (let payload = JObj [(''domain'', env_value domain0)]
      in base64_encode (utf8_encode (JSON_stringify rt payload)))"

text \<open>
  The message that is signed and verified: the template \<^verbatim>\<open>`${header}.${payload}`\<close> of the
  generator, \<^verbatim>\<open>header + '.' + payload\<close> in the verifier.
\<close>

definition composeMessage :: "string \<Rightarrow> string \<Rightarrow> string" where
  "composeMessage headerB64 payloadB64 = headerB64 @ ''.'' @ payloadB64"

text \<open>\<^verbatim>\<open>signMessage\<close> logs and rethrows what the library throws.\<close>

definition signMessage :: "ed25519 \<Rightarrow> string \<Rightarrow> bytes \<Rightarrow> js_error + string" where
  "signMessage eng message privateKeyBytes =
     (let messageBytes = utf8_encode message
      in case sign eng messageBytes privateKeyBytes of
           Inl e \<Rightarrow> Inl e
         | Inr signature0 \<Rightarrow> Inr (''0x'' @ bytesToHex signature0))"

record association =
  header :: string
  payload :: string
  signature :: string

text \<open>
  \<^verbatim>\<open>generateAccountAssociation\<close>: the calls made into the library, and the association or
  the exception that is rethrown.
\<close>

definition generateAccountAssociation ::
    "js_runtime \<Rightarrow> ed25519 \<Rightarrow> config \<Rightarrow> crypto_call list \<times> (js_error + association)" where
  "generateAccountAssociation rt eng c =
     (case hexToBytes (env_value (privateKey c)) of
        Inl e \<Rightarrow> ([], Inl e)
      | Inr privateKeyBytes \<Rightarrow>
          (case getPublicKey eng privateKeyBytes of
             Inl e \<Rightarrow> ([GetPublicKey privateKeyBytes], Inl e)
           | Inr publicKey \<Rightarrow>
               (let header = createHeader rt (fid c) publicKey;
                    payload = createPayload rt (domain c);
                    message = composeMessage header payload;
                    calls = [GetPublicKey privateKeyBytes,
                             Sign (utf8_encode message) privateKeyBytes]
                in case signMessage eng message privateKeyBytes of
                     Inl e \<Rightarrow> (calls, Inl e)
                   | Inr signature0 \<Rightarrow>
                       (case hexToBytes (JStr signature0) of
                          Inl e \<Rightarrow> (calls, Inl e)
                        | Inr signatureBytes \<Rightarrow>
                            (calls, Inr \<lparr>header = header, payload = payload,
                                         signature = base64_encode signatureBytes\<rparr>)))))"

subsection \<open>Properties of values\<close>

text \<open>
  Truthiness, reading a property and assigning one. The scripts are ES modules, hence
  strict code: reading a property of \<^verbatim>\<open>null\<close> or \<^verbatim>\<open>undefined\<close> throws, and so does
  assigning a property of any value that is not an object. The property names the
  scripts use are not array indices and not inherited, so a string, a number or a
  boolean has none of them, and an array has them only when they were assigned.
  Assigning an existing property keeps its place; a new one goes last.
\<close>

definition truthy :: "jsval \<Rightarrow> bool" where
  "truthy v =
     (case v of
        JUndefined \<Rightarrow> False
      | JNull \<Rightarrow> False
      | JBool b \<Rightarrow> b
      | JNum r \<Rightarrow> r \<noteq> 0
      | JNaN \<Rightarrow> False
      | JStr s \<Rightarrow> s \<noteq> []
      | JArr es ps \<Rightarrow> True
      | JObj ps \<Rightarrow> True)"

definition lookup_prop :: "(string \<times> jsval) list \<Rightarrow> string \<Rightarrow> jsval" where
  "lookup_prop ps k = (case map_of ps k of None \<Rightarrow> JUndefined | Some v \<Rightarrow> v)"

fun assign_prop :: "(string \<times> jsval) list \<Rightarrow> string \<Rightarrow> jsval \<Rightarrow> (string \<times> jsval) list" where
  "assign_prop [] k v = [(k, v)]"
| "assign_prop ((k', v') # ps) k v =
     (if k' = k then (k, v) # ps else (k', v') # assign_prop ps k v)"

definition get_prop :: "jsval \<Rightarrow> string \<Rightarrow> js_error + jsval" where
  "get_prop obj k =
     (case obj of
        JUndefined \<Rightarrow> Inl TypeError
      | JNull \<Rightarrow> Inl TypeError
      | JObj ps \<Rightarrow> Inr (lookup_prop ps k)
      | JArr es ps \<Rightarrow> Inr (lookup_prop ps k)
      | _ \<Rightarrow> Inr JUndefined)"

definition set_prop :: "jsval \<Rightarrow> string \<Rightarrow> jsval \<Rightarrow> js_error + jsval" where
  "set_prop obj k v =
     (case obj of
        JObj ps \<Rightarrow> Inr (JObj (assign_prop ps k v))
      | JArr es ps \<Rightarrow> Inr (JArr es (assign_prop ps k v))
      | _ \<Rightarrow> Inl TypeError)"

subsection \<open>\<^verbatim>\<open>verifySignature\<close>, the manifest and \<^verbatim>\<open>main\<close>\<close>

text \<open>
  \<^verbatim>\<open>verifySignature\<close> returns what the library's \<^verbatim>\<open>verify\<close> returns, and \<^verbatim>\<open>false\<close> when
  anything in its \<^verbatim>\<open>try\<close> block throws. The second component lists the library calls.
\<close>

definition verifySignature ::
    "js_runtime \<Rightarrow> ed25519 \<Rightarrow> association \<Rightarrow> bool \<times> crypto_call list" where
  "verifySignature rt eng accountAssociation =
     (case JSON_parse_utf8 rt (base64_decode (header accountAssociation)) of
        None \<Rightarrow> (False, [])
      | Some headerJson \<Rightarrow>
          (case get_prop headerJson ''key'' of
             Inl e \<Rightarrow> (False, [])
           | Inr key \<Rightarrow>
               (case hexToBytes key of
                  Inl e \<Rightarrow> (False, [])
                | Inr publicKeyBytes \<Rightarrow>
                    (let message = composeMessage (header accountAssociation)
                                                  (payload accountAssociation);
                         messageBytes = utf8_encode message;
                         signatureBytes = base64_decode (signature accountAssociation);
                         calls = [Verify signatureBytes messageBytes publicKeyBytes]
                     in case verify eng signatureBytes messageBytes publicKeyBytes of
                          Inl e \<Rightarrow> (False, calls)
                        | Inr isValid \<Rightarrow> (isValid, calls)))))"

text \<open>
  \<^verbatim>\<open>loadOrCreateManifest\<close>: the parsed file, or the default manifest when the file cannot
  be read, is empty (an empty string is falsy) or does not parse.
\<close>

definition default_manifest :: "config \<Rightarrow> jsval" where
  "default_manifest c =
     (let d = env_ToString (domain c)
      in JObj [(''accountAssociation'', JObj []),
               (''miniapp'', JObj [
                  (''version'', JStr ''1''),
                  (''name'', JStr ''Farcaster Mini App''),
                  (''iconUrl'', JStr (''https://'' @ d @ ''/images/flux-icon-2025-08-17T06-04-24-740Z.png'')),
                  (''homeUrl'', JStr (''https://'' @ d)),
                  (''imageUrl'', JStr (''https://'' @ d @ ''/images/flux-embed-2025-08-17T06-04-35-570Z.png'')),
                  (''buttonTitle'', JStr ''Launch App''),
                  (''splashImageUrl'', JStr (''https://'' @ d @ ''/images/flux-splash-2025-08-17T06-04-46-411Z.png'')),
                  (''splashBackgroundColor'', JStr ''#0ea5e9'')])])"

definition loadOrCreateManifest :: "js_runtime \<Rightarrow> config \<Rightarrow> filesystem \<Rightarrow> jsval" where
  "loadOrCreateManifest rt c fs =
     (case contents fs (manifestPath c) of
        None \<Rightarrow> default_manifest c
      | Some content \<Rightarrow>
          if content = [] then default_manifest c
          else (case JSON_parse_utf8 rt content of
                  None \<Rightarrow> default_manifest c
                | Some manifest \<Rightarrow> manifest))"

definition saveManifest :: "js_runtime \<Rightarrow> config \<Rightarrow> filesystem \<Rightarrow> jsval \<Rightarrow> js_error + filesystem" where
  "saveManifest rt c fs manifest =
     (let manifestJson = JSON_stringify_indent2 rt manifest
      in if unwritable fs (manifestPath c) then Inl IOError
         else Inr (fs\<lparr>contents := (contents fs)(manifestPath c \<mapsto> utf8_encode manifestJson)\<rparr>))"

definition association_value :: "association \<Rightarrow> jsval" where
  "association_value a =
     JObj [(''header'', JStr (header a)), (''payload'', JStr (payload a)),
           (''signature'', JStr (signature a))]"

text \<open>
  A run of \<^verbatim>\<open>main\<close>: the exit status of the process (0 when \<^verbatim>\<open>main\<close> returns), the file
  system it leaves and the calls it made into the library.
\<close>

record run =
  exit_status :: nat
  files :: filesystem
  crypto :: "crypto_call list"

definition main :: "js_runtime \<Rightarrow> ed25519 \<Rightarrow> config \<Rightarrow> filesystem \<Rightarrow> run" where
  "main rt eng c0 fs =
     (case validateConfig c0 of
        Inl n \<Rightarrow> \<lparr>exit_status = n, files = fs, crypto = []\<rparr>
      | Inr c \<Rightarrow>
          (case generateAccountAssociation rt eng c of
             (calls, Inl e) \<Rightarrow> \<lparr>exit_status = 1, files = fs, crypto = calls\<rparr>
           | (calls, Inr accountAssociation) \<Rightarrow>
               (let (isValid, calls') = verifySignature rt eng accountAssociation;
                    manifest = loadOrCreateManifest rt c fs
                in case set_prop manifest ''accountAssociation''
                          (association_value accountAssociation) of
                     Inl e \<Rightarrow> \<lparr>exit_status = 1, files = fs, crypto = calls @ calls'\<rparr>
                   | Inr manifest' \<Rightarrow>
                       (case saveManifest rt c fs manifest' of
                          Inl e \<Rightarrow> \<lparr>exit_status = 1, files = fs, crypto = calls @ calls'\<rparr>
                        | Inr fs' \<Rightarrow> \<lparr>exit_status = 0, files = fs', crypto = calls @ calls'\<rparr>))))"

section \<open>The verifier: \<^verbatim>\<open>verify-farcaster-signature.js\<close>\<close>

text \<open>
  \<^verbatim>\<open>Buffer.from(v, 'base64')\<close> for any value: a string is decoded; \<^verbatim>\<open>undefined\<close>,
  \<^verbatim>\<open>null\<close>, a number and a boolean throw a \<^verbatim>\<open>TypeError\<close>; what an array or an object
  gives is the runtime's.
\<close>

definition Buffer_from_base64 :: "js_runtime \<Rightarrow> jsval \<Rightarrow> js_error + bytes" where
  "Buffer_from_base64 rt v =
     (case v of
        JStr s \<Rightarrow> Inr (base64_decode s)
      | JArr es ps \<Rightarrow> Buffer_from_object rt v
      | JObj ps \<Rightarrow> Buffer_from_object rt v
      | _ \<Rightarrow> Inl TypeError)"

text \<open>
  \<^verbatim>\<open>decodeBase64\<close> returns the parsed value, and \<^verbatim>\<open>null\<close> when anything in its \<^verbatim>\<open>try\<close>
  block throws.
\<close>

definition decodeBase64 :: "js_runtime \<Rightarrow> jsval \<Rightarrow> jsval" where
  "decodeBase64 rt base64String =
     (case Buffer_from_base64 rt base64String of
        Inl e \<Rightarrow> JNull
      | Inr decoded \<Rightarrow>
          (case JSON_parse_utf8 rt decoded of
             None \<Rightarrow> JNull
           | Some v \<Rightarrow> v))"

text \<open>
  The operand of \<^verbatim>\<open>+\<close> with a string: a string is itself, any other value is converted
  by the runtime.
\<close>

definition plus_operand :: "js_runtime \<Rightarrow> jsval \<Rightarrow> js_error + string" where
  "plus_operand rt v = (case v of JStr s \<Rightarrow> Inr s | _ \<Rightarrow> String_of_value rt v)"

text \<open>
  \<^verbatim>\<open>accountAssociation.signature.slice(0, 32) + '...'\<close>, which the function logs outside
  every \<^verbatim>\<open>try\<close>. A string gives its first 32 code units; an array gives the array of its
  first 32 elements, converted for \<^verbatim>\<open>+\<close>, unless it has a property \<^verbatim>\<open>slice\<close> of its own;
  nothing else has a callable \<^verbatim>\<open>slice\<close>.
\<close>

definition signature_preview :: "js_runtime \<Rightarrow> jsval \<Rightarrow> js_error + string" where
  "signature_preview rt v =
     (case v of
        JStr s \<Rightarrow> Inr (take 32 s @ ''...'')
      | JArr es ps \<Rightarrow>
          (if map_of ps ''slice'' = None
           then (case plus_operand rt (JArr (take 32 es) []) of
                   Inl e \<Rightarrow> Inl e
                 | Inr t \<Rightarrow> Inr (t @ ''...''))
           else Inl TypeError)
      | _ \<Rightarrow> Inl TypeError)"

text \<open>
  The message, \<^verbatim>\<open>accountAssociation.header + '.' + accountAssociation.payload\<close>; for two
  strings it is \<open>composeMessage\<close>.
\<close>

definition message_of :: "js_runtime \<Rightarrow> jsval \<Rightarrow> jsval \<Rightarrow> js_error + string" where
  "message_of rt h p =
     (case plus_operand rt h of
        Inl e \<Rightarrow> Inl e
      | Inr hs \<Rightarrow>
          (case plus_operand rt p of
             Inl e \<Rightarrow> Inl e
           | Inr ps \<Rightarrow> Inr (composeMessage hs ps)))"

text \<open>
  The object \<^verbatim>\<open>verifyAccountAssociation\<close> returns. \<open>domainFormatValid\<close> and \<open>fidValid\<close> hold
  the value of a chain of \<^verbatim>\<open>&&\<close>: its first falsy operand, or the boolean of the last.
\<close>

record report =
  headerValid :: bool
  payloadValid :: bool
  domainFormatValid :: jsval
  fidValid :: jsval
  signatureValid :: bool
  signatureFormat :: string
  canVerifySignature :: bool
  message :: string

text \<open>
  The function takes any value (the script's \<^verbatim>\<open>main\<close> passes what \<^verbatim>\<open>JSON.parse\<close> found
  under \<^verbatim>\<open>accountAssociation\<close>). It returns \<^verbatim>\<open>false\<close> from one of its three guards, returns
  the report, or throws. Outside every \<^verbatim>\<open>try\<close> are: reading a property of the association,
  \<^verbatim>\<open>Buffer.from\<close> of the signature, the \<^verbatim>\<open>slice\<close> of the signature, the \<^verbatim>\<open>+\<close> that builds
  the message, and \<^verbatim>\<open>payload.domain.startsWith\<close>, which is not a function when the domain is
  a truthy value that is not a string.
\<close>

datatype verification = ReturnedFalse | Returned report | Threw js_error

definition domainValid_of :: "jsval \<Rightarrow> js_error + jsval" where
  "domainValid_of d =
     (if \<not> truthy d then Inr d
      else (case d of
              JStr s \<Rightarrow> Inr (JBool (\<not> startsWith s ''http://'' \<and> \<not> startsWith s ''https://''))
            | _ \<Rightarrow> Inl TypeError))"

definition fidValid_of :: "jsval \<Rightarrow> jsval" where
  "fidValid_of f =
     (if \<not> truthy f then f
      else (case f of JNum r \<Rightarrow> JBool (0 < r) | _ \<Rightarrow> JBool False))"

text \<open>
  The last part of the function, from the signature check on: it has the decoded header
  and payload, the signature bytes, the message and the public key.
\<close>

definition verification_report ::
    "ed25519 \<Rightarrow> jsval \<Rightarrow> jsval \<Rightarrow> bytes \<Rightarrow> string \<Rightarrow> bytes \<Rightarrow> verification" where
  "verification_report eng header0 payload0 signatureBytes message0 publicKeyBytes =
     (let messageBytes = utf8_encode message0;
          signatureValid0 =
            (case verify eng signatureBytes messageBytes publicKeyBytes of
               Inl e \<Rightarrow> False
             | Inr b \<Rightarrow> b)
      in case get_prop payload0 ''domain'' of
           Inl e \<Rightarrow> Threw e
         | Inr d \<Rightarrow>
             (case domainValid_of d of
                Inl e \<Rightarrow> Threw e
              | Inr domainValid \<Rightarrow>
                  (case get_prop header0 ''fid'' of
                     Inl e \<Rightarrow> Threw e
                   | Inr f \<Rightarrow>
                       Returned
                         \<lparr>headerValid = truthy header0,
                          payloadValid = truthy payload0,
                          domainFormatValid = domainValid,
                          fidValid = fidValid_of f,
                          signatureValid = signatureValid0,
                          signatureFormat =
                            (if signatureValid0 then ''real/ed25519'' else ''invalid''),
                          canVerifySignature = True,
                          message =
                            (if signatureValid0
                             then ''Real Ed25519 signature verified successfully''
                             else ''Signature verification failed'')\<rparr>)))"

definition verifyAccountAssociation ::
    "js_runtime \<Rightarrow> ed25519 \<Rightarrow> jsval \<Rightarrow> verification" where
  "verifyAccountAssociation rt eng accountAssociation =
     (case get_prop accountAssociation ''header'' of
        Inl e \<Rightarrow> Threw e
      | Inr headerB64 \<Rightarrow>
          (let header0 = decodeBase64 rt headerB64
           in if \<not> truthy header0 then ReturnedFalse
              else
                (case get_prop accountAssociation ''payload'' of
                   Inl e \<Rightarrow> Threw e
                 | Inr payloadB64 \<Rightarrow>
                     (let payload0 = decodeBase64 rt payloadB64
                      in if \<not> truthy payload0 then ReturnedFalse
                         else
                           (case get_prop accountAssociation ''signature'' of
                              Inl e \<Rightarrow> Threw e
                            | Inr signatureB64 \<Rightarrow>
                                (case Buffer_from_base64 rt signatureB64 of
                                   Inl e \<Rightarrow> Threw e
                                 | Inr signatureBytes \<Rightarrow>
                                     (case signature_preview rt signatureB64 of
                                        Inl e \<Rightarrow> Threw e
                                      | Inr preview \<Rightarrow>
                                          (case message_of rt headerB64 payloadB64 of
                                             Inl e \<Rightarrow> Threw e
                                           | Inr message0 \<Rightarrow>
                                               (case get_prop header0 ''key'' of
                                                  Inl e \<Rightarrow> Threw e
                                                | Inr key \<Rightarrow>
                                                    (case hexToBytes_verifier key of
                                                       None \<Rightarrow> ReturnedFalse
                                                     | Some publicKeyBytes \<Rightarrow>
                                                         verification_report eng header0 payload0
                                                           signatureBytes message0
                                                           publicKeyBytes))))))))))"

section \<open>The placeholder generator: \<^verbatim>\<open>updateManifest\<close>\<close>

text \<open>
  \<^verbatim>\<open>updateManifest\<close> of the generator with placeholder signatures: every exception inside
  its \<^verbatim>\<open>try\<close> ends the process with status 1 (\<open>Inl 1\<close>). Otherwise it returns the manifest
  and has written it. The assignment to \<^verbatim>\<open>manifest.miniapp.homeUrl\<close> changes the object
  that \<^verbatim>\<open>manifest.miniapp\<close> refers to.
\<close>

definition updateManifest ::
    "js_runtime \<Rightarrow> config \<Rightarrow> filesystem \<Rightarrow> jsval \<Rightarrow> nat + jsval \<times> filesystem" where
  "updateManifest rt c fs accountAssociation =
     (case contents fs (manifestPath c) of
        None \<Rightarrow> Inl 1
      | Some manifestContent \<Rightarrow>
          (case JSON_parse_utf8 rt manifestContent of
             None \<Rightarrow> Inl 1
           | Some manifest \<Rightarrow>
               (case set_prop manifest ''accountAssociation'' accountAssociation of
                  Inl e \<Rightarrow> Inl 1
                | Inr manifest1 \<Rightarrow>
                    (case get_prop manifest1 ''miniapp'' of
                       Inl e \<Rightarrow> Inl 1
                     | Inr miniapp \<Rightarrow>
                         (case (if truthy miniapp
                                then (case set_prop miniapp ''homeUrl'' (env_value (domain c)) of
                                        Inl e \<Rightarrow> Inl e
                                      | Inr miniapp' \<Rightarrow> set_prop manifest1 ''miniapp'' miniapp')
                                else Inr manifest1) of
                            Inl e \<Rightarrow> Inl 1
                          | Inr manifest2 \<Rightarrow>
                              if unwritable fs (manifestPath c) then Inl 1
                              else Inr (manifest2,
                                        fs\<lparr>contents := (contents fs)(manifestPath c \<mapsto>
                                          utf8_encode (JSON_stringify_indent2 rt manifest2))\<rparr>))))))"

section \<open>Example inputs\<close>

text \<open>
  Concrete inputs for the examples below: a configuration, a file system, a stand-in for
  the library whose \<^verbatim>\<open>verify\<close> answers \<open>verdict\<close>, and a runtime that serialises and
  parses the few values of the examples as \<^verbatim>\<open>JSON.stringify\<close> and \<^verbatim>\<open>JSON.parse\<close> do
  (\<^verbatim>\<open>null\<close> and a syntax error for everything else; the two conversions of values that
  are not strings, which no example reaches, throw).
\<close>

definition example_config :: config where
  "example_config =
     \<lparr>fid = Some ''3621'',
      privateKey = Some ''0101010101010101010101010101010101010101010101010101010101010101'',
      domain = Some ''example.com'',
      manifestPath = ''public/.well-known/farcaster.json''\<rparr>"

definition toy_engine :: "bool \<Rightarrow> ed25519" where
  "toy_engine verdict =
     \<lparr>getPublicKey = (\<lambda>privateKey. Inr (replicate 32 2)),
      sign = (\<lambda>message privateKey. Inr (replicate 64 7)),
      verify = (\<lambda>signature message publicKey. Inr verdict)\<rparr>"

definition example_header :: jsval where
  "example_header =
     JObj [(''fid'', JNum 3621), (''type'', JStr ''custody''),
           (''key'', JStr ''0x0202020202020202020202020202020202020202020202020202020202020202'')]"

definition example_payload :: jsval where
  "example_payload = JObj [(''domain'', JStr ''example.com'')]"

definition example_header_text :: string where
  \<open>example_header_text =
     ''{"fid":3621,"type":"custody","key":"0x0202020202020202020202020202020202020202020202020202020202020202"}''\<close>

definition example_payload_text :: string where
  \<open>example_payload_text = ''{"domain":"example.com"}''\<close>

definition example_association :: association where
  "example_association =
     \<lparr>header = ''eyJmaWQiOjM2MjEsInR5cGUiOiJjdXN0b2R5Iiwia2V5IjoiMHgwMjAyMDIwMjAyMDIwMjAyMDIwMjAyMDIwMjAyMDIwMjAyMDIwMjAyMDIwMjAyMDIwMjAyMDIwMjAyMDIwMjAyIn0='',
      payload = ''eyJkb21haW4iOiJleGFtcGxlLmNvbSJ9'',
      signature = ''BwcHBwcHBwcHBwcHBwcHBwcHBwcHBwcHBwcHBwcHBwcHBwcHBwcHBwcHBwcHBwcHBwcHBwcHBwcHBwcHBwcHBw==''\<rparr>"

definition example_manifest :: jsval where
  "example_manifest =
     JObj [(''accountAssociation'', association_value example_association),
           (''miniapp'', JObj [
              (''version'', JStr ''1''),
              (''name'', JStr ''Farcaster Mini App''),
              (''iconUrl'', JStr ''https://example.com/images/flux-icon-2025-08-17T06-04-24-740Z.png''),
              (''homeUrl'', JStr ''https://example.com''),
              (''imageUrl'', JStr ''https://example.com/images/flux-embed-2025-08-17T06-04-35-570Z.png''),
              (''buttonTitle'', JStr ''Launch App''),
              (''splashImageUrl'', JStr ''https://example.com/images/flux-splash-2025-08-17T06-04-46-411Z.png''),
              (''splashBackgroundColor'', JStr ''#0ea5e9'')])]"

definition example_manifest_text :: string where
  \<open>example_manifest_text =
         ''{\<newline>''
       @ ''  "accountAssociation": {\<newline>''
       @ ''    "header": "eyJmaWQiOjM2MjEsInR5cGUiOiJjdXN0b2R5Iiwia2V5IjoiMHgwMjAyMDIwMjAyMDIwMjAyMDIwMjAyMDIwMjAyMDIwMjAyMDIwMjAyMDIwMjAyMDIwMjAyMDIwMjAyMDIwMjAyIn0=",\<newline>''
       @ ''    "payload": "eyJkb21haW4iOiJleGFtcGxlLmNvbSJ9",\<newline>''
       @ ''    "signature": "BwcHBwcHBwcHBwcHBwcHBwcHBwcHBwcHBwcHBwcHBwcHBwcHBwcHBwcHBwcHBwcHBwcHBwcHBwcHBwcHBwcHBw=="\<newline>''
       @ ''  },\<newline>''
       @ ''  "miniapp": {\<newline>''
       @ ''    "version": "1",\<newline>''
       @ ''    "name": "Farcaster Mini App",\<newline>''
       @ ''    "iconUrl": "https://example.com/images/flux-icon-2025-08-17T06-04-24-740Z.png",\<newline>''
       @ ''    "homeUrl": "https://example.com",\<newline>''
       @ ''    "imageUrl": "https://example.com/images/flux-embed-2025-08-17T06-04-35-570Z.png",\<newline>''
       @ ''    "buttonTitle": "Launch App",\<newline>''
       @ ''    "splashImageUrl": "https://example.com/images/flux-splash-2025-08-17T06-04-46-411Z.png",\<newline>''
       @ ''    "splashBackgroundColor": "#0ea5e9"\<newline>''
       @ ''  }\<newline>''
       @ ''}''\<close>

definition old_manifest :: jsval where
  "old_manifest =
     JObj [(''miniapp'', JObj [(''name'', JStr ''Demo''), (''homeUrl'', JStr ''https://old.example'')])]"

definition old_manifest_text :: string where
  \<open>old_manifest_text = ''{"miniapp":{"name":"Demo","homeUrl":"https://old.example"}}''\<close>

definition example_runtime :: js_runtime where
  "example_runtime =
     \<lparr>JSON_stringify =
        (\<lambda>v. if v = example_header then example_header_text
             else if v = example_payload then example_payload_text
             else ''null''),
      JSON_stringify_indent2 =
        (\<lambda>v. if v = example_manifest then example_manifest_text else ''null''),
      JSON_parse_utf8 =
        (\<lambda>bs. if bs = utf8_encode example_header_text then Some example_header
              else if bs = utf8_encode example_payload_text then Some example_payload
              else if bs = utf8_encode old_manifest_text then Some old_manifest
              else None),
      Buffer_from_object = (\<lambda>v. Inl TypeError),
      String_of_value = (\<lambda>v. Inl TypeError)\<rparr>"

definition no_files :: filesystem where
  "no_files = \<lparr>contents = (\<lambda>path. None), unwritable = (\<lambda>path. False)\<rparr>"

definition old_files :: filesystem where
  "old_files =
     \<lparr>contents = (\<lambda>path. if path = ''public/.well-known/farcaster.json''
                         then Some (utf8_encode old_manifest_text) else None),
      unwritable = (\<lambda>path. False)\<rparr>"

section \<open>Predicates of the statements\<close>

text \<open>
  A string over the base64 alphabets (standard and URL-safe) and the padding character;
  a domain that starts with a protocol prefix, with two of them in a row, or ends with a
  slash; a configuration that \<^verbatim>\<open>validateConfig\<close> turns down.
\<close>

definition base64_string :: "string \<Rightarrow> bool" where
  "base64_string s = list_all (\<lambda>c. c = CHR ''='' \<or> unbase64 c \<noteq> None) s"

definition has_protocol :: "string \<Rightarrow> bool" where
  "has_protocol s = (startsWith s ''http://'' \<or> startsWith s ''https://'')"

definition doubled_protocol :: "string \<Rightarrow> bool" where
  "doubled_protocol s =
     list_ex (startsWith s)
       [''http://http://'', ''http://https://'', ''https://http://'', ''https://https://'']"

definition ends_with_slash :: "string \<Rightarrow> bool" where
  "ends_with_slash s = (s \<noteq> [] \<and> last s = CHR ''/'')"

definition malformed_config :: "config \<Rightarrow> bool" where
  "malformed_config c =
     (falsy_env (fid c) \<or> falsy_env (privateKey c) \<or> falsy_env (domain c)
      \<or> parseInt (env_ToString (fid c)) None = None
      \<or> \<not> privateKeyRegex (replace_prefix ''0x'' (env_ToString (privateKey c))))"

text \<open>A string of decimal digits: an account id written as a number.\<close>

definition decimal_digits :: "string \<Rightarrow> bool" where
  "decimal_digits s = (s \<noteq> [] \<and> list_all (\<lambda>c. c \<in> set ''0123456789'') s)"

text \<open>
  Two values that differ at most at the properties named in \<open>ks\<close>: both objects, or both
  arrays with the same elements, and with the same other properties in the same order.
\<close>

definition props_without :: "string list \<Rightarrow> (string \<times> jsval) list \<Rightarrow> (string \<times> jsval) list" where
  "props_without ks ps = filter (\<lambda>p. fst p \<notin> set ks) ps"

fun same_outside :: "string list \<Rightarrow> jsval \<Rightarrow> jsval \<Rightarrow> bool" where
  "same_outside ks (JObj ps) (JObj ps') = (props_without ks ps = props_without ks ps')"
| "same_outside ks (JArr es ps) (JArr es' ps') =
     (es = es' \<and> props_without ks ps = props_without ks ps')"
| "same_outside ks m m' = False"

text \<open>
  A value that \<^verbatim>\<open>Buffer.from(v, 'base64')\<close> refuses with a \<^verbatim>\<open>TypeError\<close>: \<^verbatim>\<open>undefined\<close>,
  \<^verbatim>\<open>null\<close>, a number or a boolean.
\<close>

definition no_buffer :: "jsval \<Rightarrow> bool" where
  "no_buffer v =
     (case v of
        JStr s \<Rightarrow> False
      | JArr es ps \<Rightarrow> False
      | JObj ps \<Rightarrow> False
      | _ \<Rightarrow> True)"

text \<open>
  What \<^verbatim>\<open>verifyAccountAssociation\<close> does, with the three fields of the report that come
  from the signature check blanked.
\<close>

definition unsigned_view :: "verification \<Rightarrow> verification" where
  "unsigned_view r =
     (case r of
        Returned rep \<Rightarrow>
          Returned (rep\<lparr>signatureValid := False, signatureFormat := [], message := []\<rparr>)
      | _ \<Rightarrow> r)"

section \<open>Properties of the codec\<close>

lemma char_of_48: "char_of (48 :: nat) = CHR ''0''"
  by code_simp

lemma digitChar_value: "d < 16 \<Longrightarrow> digitValue (digitChar d) = Some d"
  by (auto simp: digitChar_def digitValue_def Let_def)

lemma toString16_byte:
  "n < 256 \<Longrightarrow> padStart 2 (CHR ''0'') (toString16 n) = [digitChar (n div 16), digitChar (n mod 16)]"
  by (simp add: toString16.simps [of n] toString16.simps [of "n div 16"] padStart_def digitChar_def char_of_48)


lemma hexToBytes_loop_inv:
  "length bs = length h div 2 \<Longrightarrow> k \<le> length h div 2 \<Longrightarrow>
   hexToBytes_loop h (2 * k) bs = take k bs @ map (byteAt h) [k ..< length h div 2]"
proof (induction "length h div 2 - k" arbitrary: k bs)
  case 0
  then have k: "k = length h div 2" by simp
  show ?case
  proof (cases "2 * k < length h")
    case True
    then have "hexToBytes_loop h (2 * k) bs = hexToBytes_loop h (2 * k + 2) bs"
      using 0 k by (subst hexToBytes_loop.simps) (simp add: typed_set_def)
    also have "\<dots> = bs"
      using k by (subst hexToBytes_loop.simps) auto
    finally show ?thesis using 0 k by simp
  next
    case False
    then show ?thesis using 0 k by (subst hexToBytes_loop.simps) simp
  qed
next
  case (Suc n)
  then have lt: "k < length h div 2" by simp
  then have lt2: "2 * k < length h" by auto
  let ?bs = "bs[k := byteAt h k]"
  have step: "hexToBytes_loop h (2 * k) bs = hexToBytes_loop h (2 * Suc k) ?bs"
    using lt lt2 Suc.prems by (subst hexToBytes_loop.simps) (simp add: typed_set_def byteAt_def)
  have "hexToBytes_loop h (2 * Suc k) ?bs = take (Suc k) ?bs @ map (byteAt h) [Suc k ..< length h div 2]"
    using Suc by (intro Suc.hyps(1)) auto
  also have "take (Suc k) ?bs = take k bs @ [byteAt h k]"
    using lt Suc.prems by (simp add: take_Suc_conv_app_nth)
  finally show ?case using step lt by (simp add: upt_conv_Cons)
qed

lemma hexToBytes_string:
  "hexToBytes (JStr s) =
     Inr (map (byteAt (replace_prefix ''0x'' s)) [0 ..< length (replace_prefix ''0x'' s) div 2])"
  using hexToBytes_loop_inv [of "replicate (length (replace_prefix ''0x'' s) div 2) 0" "replace_prefix ''0x'' s" 0]
  by (simp add: hexToBytes_def Let_def)



lemma hex2_digits: "hex2 b = [digitChar (unat b div 16), digitChar (unat b mod 16)]"
proof -
  have "unat b < 256" using unsigned_less [of b] by simp
  then show ?thesis by (simp add: hex2_def toString16_byte)
qed

lemma bytesToHex_Nil: "bytesToHex [] = []"
  by (simp add: bytesToHex_def)

lemma bytesToHex_Cons: "bytesToHex (b # bs) = hex2 b @ bytesToHex bs"
  by (simp add: bytesToHex_def hex2_def)

lemma length_bytesToHex: "length (bytesToHex bs) = 2 * length bs"
  by (induction bs) (simp_all add: bytesToHex_Nil bytesToHex_Cons hex2_digits)

lemma substr_bytesToHex:
  "k < length bs \<Longrightarrow> substr (bytesToHex bs) (2 * k) 2 = hex2 (bs ! k)"
proof (induction bs arbitrary: k)
  case Nil
  then show ?case by simp
next
  case (Cons b bs)
  show ?case
  proof (cases k)
    case 0
    then show ?thesis by (simp add: substr_def bytesToHex_Cons hex2_digits)
  next
    case (Suc j)
    then have "substr (bytesToHex (b # bs)) (2 * k) 2 = substr (bytesToHex bs) (2 * j) 2"
      by (simp add: substr_def bytesToHex_Cons hex2_digits)
    then show ?thesis using Cons Suc by simp
  qed
qed

lemma digitChar_not_space: "d < 16 \<Longrightarrow> \<not> isWhiteSpace (digitChar d)"
  by (auto simp: digitChar_def isWhiteSpace_def)

lemma digitChar_code: "d < 16 \<Longrightarrow> of_char (digitChar d) = (if d < 10 then 48 + d else 87 + d)"
  by (auto simp: digitChar_def)

lemma digitChar_neq:
  assumes "d < 16"
  shows "digitChar d \<noteq> CHR ''-''" "digitChar d \<noteq> CHR ''+''" "digitChar d \<noteq> CHR ''x''" "digitChar d \<noteq> CHR ''X''"
  using assms by (auto simp: digitChar_def dest!: arg_cong [where f = "of_char :: char \<Rightarrow> nat"])

lemma parseInt_hex2: "parseInt (hex2 b) (Some 16) = Some (int (unat b))"
proof -
  let ?h = "unat b div 16" and ?l = "unat b mod 16"
  have lt: "unat b < 256" using unsigned_less [of b] by simp
  then have h: "?h < 16" and l: "?l < 16" by auto
  have "takeWhile (isRadixDigit 16) [digitChar ?h, digitChar ?l] = [digitChar ?h, digitChar ?l]"
    using h l by (simp add: isRadixDigit_def digitChar_value)
  moreover have "digitsValue 16 [digitChar ?h, digitChar ?l] = unat b"
    using h l by (simp add: digitsValue_def digitChar_value)
  ultimately show ?thesis
    using h l digitChar_neq [OF h] digitChar_neq [OF l] digitChar_not_space [OF h]
    by (simp add: parseInt_def hex2_digits Let_def)
qed

lemma byteAt_bytesToHex: "k < length bs \<Longrightarrow> byteAt (bytesToHex bs) k = bs ! k"
  by (simp add: byteAt_def substr_bytesToHex parseInt_hex2 ToUint8_def)

lemma bytesToHex_no_prefix: "replace_prefix ''0x'' (bytesToHex bs) = bytesToHex bs"
proof (cases bs)
  case Nil
  then show ?thesis by (simp add: bytesToHex_Nil replace_prefix_def)
next
  case (Cons b bs')
  have "unat b mod 16 < 16" by simp
  from digitChar_neq(3) [OF this] show ?thesis
    by (simp add: Cons bytesToHex_Cons hex2_digits replace_prefix_def)
qed

lemma hexToBytes_bytesToHex: "hexToBytes (JStr (bytesToHex bs)) = Inr bs"
proof -
  have "map (byteAt (bytesToHex bs)) [0 ..< length bs] = map ((!) bs) [0 ..< length bs]"
    by (rule map_cong) (simp_all add: byteAt_bytesToHex)
  then show ?thesis
    by (simp add: hexToBytes_string bytesToHex_no_prefix length_bytesToHex map_nth)
qed

lemma digitChar_lower_all:
  "list_all (\<lambda>d. digitChar d \<in> set ''0123456789abcdef'') [0 ..< 16]"
  by code_simp

lemma digitChar_lower: "d < 16 \<Longrightarrow> digitChar d \<in> set ''0123456789abcdef''"
  using digitChar_lower_all unfolding list_all_iff by (metis atLeastLessThan_iff set_upt zero_le)

lemma set_bytesToHex: "set (bytesToHex bs) \<subseteq> set ''0123456789abcdef''"
proof (induction bs)
  case Nil
  then show ?case by (simp add: bytesToHex_Nil)
next
  case (Cons b bs)
  have "unat b < 256" using unsigned_less [of b] by simp
  then have "digitChar (unat b div 16) \<in> set ''0123456789abcdef''"
    by (intro digitChar_lower) simp
  moreover have "digitChar (unat b mod 16) \<in> set ''0123456789abcdef''"
    by (intro digitChar_lower) simp
  ultimately show ?case
    using Cons by (simp only: bytesToHex_Cons hex2_digits set_append) auto
qed

lemma unbase64_b64_char: "n < 64 \<Longrightarrow> unbase64 (b64_char n) = Some n"
  by (auto simp: unbase64_def b64_char_def Let_def)

lemma b64_char_not_pad: "n < 64 \<Longrightarrow> b64_char n \<noteq> CHR ''=''"
  by (auto simp: b64_char_def dest!: arg_cong [where f = "of_char :: char \<Rightarrow> nat"])

lemma b64_char_not_dot: "n < 64 \<Longrightarrow> b64_char n \<noteq> CHR ''.''"
  by (auto simp: b64_char_def dest!: arg_cong [where f = "of_char :: char \<Rightarrow> nat"])

lemma b64_sextets_char: "n < 64 \<Longrightarrow> b64_sextets (b64_char n # s) = n # b64_sextets s"
  by (simp add: unbase64_b64_char b64_char_not_pad)

lemma sextets_to_bytes:
  fixes x y z :: nat
  shows "x div 4 * 4 + x mod 4 * 16 div 16 = x"
    and "y < 256 \<Longrightarrow> x div 4 * 4 + (x mod 4 * 16 + y div 16) div 16 = x"
    and "y < 256 \<Longrightarrow> (x mod 4 * 16 + y div 16) mod 16 * 16 + y mod 16 * 4 div 4 = y"
    and "y < 256 \<Longrightarrow> z < 256 \<Longrightarrow>
         (x mod 4 * 16 + y div 16) mod 16 * 16 + (y mod 16 * 4 + z div 64) div 4 = y"
    and "z < 256 \<Longrightarrow> (y mod 16 * 4 + z div 64) mod 4 * 64 + z mod 64 = z"
  by simp_all

lemma unat_byte_less: "unat (a :: byte) < 256"
  using unsigned_less [of a] by simp

lemma sextet_bounds:
  fixes a b c :: byte
  shows "unat a div 4 < 64" "unat a mod 4 * 16 + unat b div 16 < 64"
    "unat b mod 16 * 4 + unat c div 64 < 64" "unat c mod 64 < 64"
    "unat a mod 4 * 16 < 64" "unat b mod 16 * 4 < 64"
proof -
  show "unat a div 4 < 64" using unat_byte_less [of a] by simp
  have "unat a mod 4 < 4" "unat b div 16 < 16" using unat_byte_less [of b] by simp_all
  then show "unat a mod 4 * 16 + unat b div 16 < 64" by linarith
  have "unat b mod 16 < 16" "unat c div 64 < 4" using unat_byte_less [of c] by simp_all
  then show "unat b mod 16 * 4 + unat c div 64 < 64" by linarith
  show "unat c mod 64 < 64" by simp
  have "unat a mod 4 < 4" by simp
  then show "unat a mod 4 * 16 < 64" by linarith
  have "unat b mod 16 < 16" by simp
  then show "unat b mod 16 * 4 < 64" by linarith
qed

lemma b64_sextets_encoded:
  "n1 < 64 \<Longrightarrow> n2 < 64 \<Longrightarrow> n3 < 64 \<Longrightarrow> n4 < 64 \<Longrightarrow>
   b64_sextets (b64_char n1 # b64_char n2 # b64_char n3 # b64_char n4 # s)
     = n1 # n2 # n3 # n4 # b64_sextets s"
  "n1 < 64 \<Longrightarrow> n2 < 64 \<Longrightarrow> n3 < 64 \<Longrightarrow>
   b64_sextets [b64_char n1, b64_char n2, b64_char n3, CHR ''=''] = [n1, n2, n3]"
  "n1 < 64 \<Longrightarrow> n2 < 64 \<Longrightarrow>
   b64_sextets [b64_char n1, b64_char n2, CHR ''='', CHR ''=''] = [n1, n2]"
  by (simp_all add: unbase64_b64_char b64_char_not_pad)

lemma base64_decode_encode: "base64_decode (base64_encode bs) = bs"
proof (induction bs rule: base64_encode.induct)
  case 1
  show ?case by (simp add: base64_decode_def)
next
  case (2 a)
  let ?x = "unat a"
  have "base64_decode (base64_encode [a]) = b64_groups [?x div 4, ?x mod 4 * 16]"
    unfolding base64_decode_def base64_encode.simps
    by (subst b64_sextets_encoded(3)) (simp_all add: sextet_bounds unat_byte_less)
  also have "\<dots> = [word_of_nat (?x div 4 * 4 + ?x mod 4 * 16 div 16)]"
    by (simp only: b64_groups.simps)
  also have "\<dots> = [a]"
    by (simp only: sextets_to_bytes) simp
  finally show ?case .
next
  case (3 a b)
  let ?x = "unat a" and ?y = "unat b"
  have "base64_decode (base64_encode [a, b])
          = b64_groups [?x div 4, ?x mod 4 * 16 + ?y div 16, ?y mod 16 * 4]"
    unfolding base64_decode_def base64_encode.simps
    by (subst b64_sextets_encoded(2)) (simp_all add: sextet_bounds unat_byte_less)
  also have "\<dots> = [word_of_nat (?x div 4 * 4 + (?x mod 4 * 16 + ?y div 16) div 16),
                     word_of_nat ((?x mod 4 * 16 + ?y div 16) mod 16 * 16 + ?y mod 16 * 4 div 4)]"
    by (simp only: b64_groups.simps)
  also have "\<dots> = [a, b]"
    by (simp only: sextets_to_bytes unat_byte_less) simp
  finally show ?case .
next
  case (4 a b c rest)
  let ?x = "unat a" and ?y = "unat b" and ?z = "unat c"
  have "base64_decode (base64_encode (a # b # c # rest))
          = b64_groups (?x div 4 # (?x mod 4 * 16 + ?y div 16) # (?y mod 16 * 4 + ?z div 64)
                         # ?z mod 64 # b64_sextets (base64_encode rest))"
    unfolding base64_decode_def base64_encode.simps append.simps
    by (subst b64_sextets_encoded(1)) (simp_all add: sextet_bounds unat_byte_less)
  also have "\<dots> = [word_of_nat (?x div 4 * 4 + (?x mod 4 * 16 + ?y div 16) div 16),
                     word_of_nat ((?x mod 4 * 16 + ?y div 16) mod 16 * 16
                                  + (?y mod 16 * 4 + ?z div 64) div 4),
                     word_of_nat ((?y mod 16 * 4 + ?z div 64) mod 4 * 64 + ?z mod 64)]
                    @ base64_decode (base64_encode rest)"
    by (simp only: b64_groups.simps base64_decode_def)
  also have "\<dots> = a # b # c # rest"
    by (simp only: sextets_to_bytes unat_byte_less 4) simp
  finally show ?case .
qed

lemma unbase64_dot: "unbase64 (CHR ''.'') = None"
  by (simp add: unbase64_def)

lemma base64_string_no_dot:
  assumes "base64_string s"
  shows "CHR ''.'' \<notin> set s"
proof
  assume "CHR ''.'' \<in> set s"
  with assms have "CHR ''.'' = CHR ''='' \<or> unbase64 (CHR ''.'') \<noteq> None"
    unfolding base64_string_def list_all_iff by blast
  then show False by (simp add: unbase64_dot)
qed

lemma base64_string_encode: "base64_string (base64_encode bs)"
  by (induction bs rule: base64_encode.induct)
     (simp_all add: base64_string_def unbase64_b64_char sextet_bounds)

lemma split_at_first_dot:
  "CHR ''.'' \<notin> set h \<Longrightarrow> CHR ''.'' \<notin> set h' \<Longrightarrow>
   h @ CHR ''.'' # p = h' @ CHR ''.'' # p' \<Longrightarrow> h = h' \<and> p = p'"
proof (induction h arbitrary: h')
  case Nil
  then show ?case by (cases h') auto
next
  case (Cons c h)
  then show ?case by (cases h') auto
qed

lemma hexToBytes_prefixed: "hexToBytes (JStr (CHR ''0'' # CHR ''x'' # bytesToHex bs)) = Inr bs"
proof -
  have "replace_prefix ''0x'' (CHR ''0'' # CHR ''x'' # bytesToHex bs) = bytesToHex bs"
    by (simp add: replace_prefix_def)
  moreover have "map (byteAt (bytesToHex bs)) [0 ..< length bs] = map ((!) bs) [0 ..< length bs]"
    by (rule map_cong) (simp_all add: byteAt_bytesToHex)
  ultimately show ?thesis
    by (simp add: hexToBytes_string length_bytesToHex map_nth)
qed

section \<open>Properties of \<^verbatim>\<open>validateConfig\<close>\<close>

lemma startsWith_append:
  "startsWith s (p @ q) \<longleftrightarrow> startsWith s p \<and> startsWith (drop (length p) s) q"
proof
  assume "startsWith s (p @ q)"
  then have eq: "take (length p + length q) s = p @ q"
    by (simp add: startsWith_def)
  then have "length (take (length p + length q) s) = length p + length q"
    by simp
  then have len: "length p + length q \<le> length s"
    by simp
  from eq have "take (length p) s @ take (length q) (drop (length p) s) = p @ q"
    by (simp add: take_add)
  moreover have "length (take (length p) s) = length p"
    using len by simp
  ultimately have "take (length p) s = p \<and> take (length q) (drop (length p) s) = q"
    using append_eq_append_conv [of "take (length p) s" p "take (length q) (drop (length p) s)" q]
    by blast
  then show "startsWith s p \<and> startsWith (drop (length p) s) q"
    by (simp add: startsWith_def)
next
  assume "startsWith s p \<and> startsWith (drop (length p) s) q"
  then have "take (length p) s @ take (length q) (drop (length p) s) = p @ q"
    by (simp add: startsWith_def)
  then show "startsWith s (p @ q)"
    by (simp add: startsWith_def take_add)
qed

lemma length_http: "length ''http://'' = 7" "length ''https://'' = 8"
  by simp_all

lemma startsWith_http: "startsWith s ''http://'' \<longleftrightarrow> take 7 s = ''http://''"
  unfolding startsWith_def length_http ..

lemma startsWith_https: "startsWith s ''https://'' \<longleftrightarrow> take 8 s = ''https://''"
  unfolding startsWith_def length_http ..

lemma not_both_protocols: "startsWith s ''http://'' \<Longrightarrow> \<not> startsWith s ''https://''"
proof
  assume a: "startsWith s ''http://''" and b: "startsWith s ''https://''"
  have "take 5 s = take 5 (take 7 s)" by simp
  also have "\<dots> = ''http:''" using a unfolding startsWith_http by simp
  finally have 1: "take 5 s = ''http:''" .
  have "take 5 s = take 5 (take 8 s)" by simp
  also have "\<dots> = ''https''" using b unfolding startsWith_https by simp
  finally have 2: "take 5 s = ''https''" .
  from 1 2 show False by simp
qed

lemma doubled_protocol_iff:
  "doubled_protocol s \<longleftrightarrow>
     (startsWith s ''http://'' \<and> has_protocol (drop 7 s))
   \<or> (startsWith s ''https://'' \<and> has_protocol (drop 8 s))"
proof -
  have 1: "startsWith s ''http://http://'' \<longleftrightarrow> startsWith s ''http://'' \<and> startsWith (drop 7 s) ''http://''"
    using startsWith_append [of s "''http://''" "''http://''"] unfolding length_http by simp
  have 2: "startsWith s ''http://https://'' \<longleftrightarrow> startsWith s ''http://'' \<and> startsWith (drop 7 s) ''https://''"
    using startsWith_append [of s "''http://''" "''https://''"] unfolding length_http by simp
  have 3: "startsWith s ''https://http://'' \<longleftrightarrow> startsWith s ''https://'' \<and> startsWith (drop 8 s) ''http://''"
    using startsWith_append [of s "''https://''" "''http://''"] unfolding length_http by simp
  have 4: "startsWith s ''https://https://'' \<longleftrightarrow> startsWith s ''https://'' \<and> startsWith (drop 8 s) ''https://''"
    using startsWith_append [of s "''https://''" "''https://''"] unfolding length_http by simp
  show ?thesis
    unfolding doubled_protocol_def has_protocol_def list_ex_Cons_iff list_ex_Nil_iff 1 2 3 4 by blast
qed

lemma has_protocol_strip: "has_protocol (strip_protocol s) \<longleftrightarrow> doubled_protocol s"
proof (cases "startsWith s ''http://''")
  case True
  with not_both_protocols [of s] have "\<not> startsWith s ''https://''" by simp
  with True show ?thesis
    by (simp only: doubled_protocol_iff strip_protocol_def if_True simp_thms)
next
  case False
  show ?thesis
  proof (cases "startsWith s ''https://''")
    case True
    with False show ?thesis
      by (simp only: doubled_protocol_iff strip_protocol_def if_True if_False simp_thms)
  next
    case no: False
    with False have "\<not> has_protocol s" by (simp add: has_protocol_def)
    with False no show ?thesis
      by (simp only: doubled_protocol_iff strip_protocol_def if_False simp_thms)
  qed
qed

lemma strip_protocol_suffix: "\<exists>pre. s = pre @ strip_protocol s"
proof -
  have "s = take 7 s @ drop 7 s" "s = take 8 s @ drop 8 s" "s = [] @ s" by simp_all
  then show ?thesis unfolding strip_protocol_def
    by (cases "startsWith s ''http://''"; cases "startsWith s ''https://''") (simp_all only: if_True if_False, blast+)
qed

lemma strip_protocol_keeps_slash:
  "ends_with_slash s \<Longrightarrow> strip_protocol s \<noteq> [] \<Longrightarrow> ends_with_slash (strip_protocol s)"
proof -
  assume a: "ends_with_slash s" and b: "strip_protocol s \<noteq> []"
  obtain pre where "s = pre @ strip_protocol s" using strip_protocol_suffix by blast
  then have "last s = last (strip_protocol s)" using b by (metis last_appendR)
  then show ?thesis using a b by (simp add: ends_with_slash_def)
qed

lemma validateConfig_cases:
  "validateConfig c =
     (if malformed_config c then Inl 1
      else Inr (c\<lparr>domain := Some (strip_protocol (env_ToString (domain c)))\<rparr>))"
  by (simp add: validateConfig_def malformed_config_def Let_def)

section \<open>Properties of \<^verbatim>\<open>main\<close>\<close>

lemma main_rejected:
  "validateConfig c0 = Inl n \<Longrightarrow> main rt eng c0 fs = \<lparr>exit_status = n, files = fs, crypto = []\<rparr>"
  by (simp add: main_def)

lemma main_success:
  assumes "validateConfig c0 = Inr c"
    and "generateAccountAssociation rt eng c = (calls, Inr a)"
    and "set_prop (loadOrCreateManifest rt c fs) ''accountAssociation'' (association_value a) = Inr m"
    and "\<not> unwritable fs (manifestPath c)"
  shows "main rt eng c0 fs =
           \<lparr>exit_status = 0,
            files = fs\<lparr>contents := (contents fs)(manifestPath c \<mapsto>
                         utf8_encode (JSON_stringify_indent2 rt m))\<rparr>,
            crypto = calls @ snd (verifySignature rt eng a)\<rparr>"
  using assms by (simp add: main_def saveManifest_def Let_def split: prod.splits)

lemma generate_ignores_verify:
  "generateAccountAssociation rt (eng\<lparr>verify := v\<rparr>) c = generateAccountAssociation rt eng c"
  by (simp add: generateAccountAssociation_def signMessage_def Let_def split: sum.splits)

lemma verifySignature_calls_ignore_verify:
  "snd (verifySignature rt (eng\<lparr>verify := v\<rparr>) a) = snd (verifySignature rt eng a)"
  by (simp add: verifySignature_def Let_def split: option.splits sum.splits)

lemma main_ignores_verify: "main rt (eng\<lparr>verify := v\<rparr>) c0 fs = main rt eng c0 fs"
proof (cases "validateConfig c0")
  case (Inl n)
  then show ?thesis by (simp add: main_def)
next
  case (Inr c)
  obtain calls r where g: "generateAccountAssociation rt eng c = (calls, r)"
    by (cases "generateAccountAssociation rt eng c")
  show ?thesis
  proof (cases r)
    case (Inl e)
    with Inr g show ?thesis by (simp add: main_def generate_ignores_verify)
  next
    case a: (Inr a)
    obtain ok calls' where v: "verifySignature rt eng a = (ok, calls')"
      by (cases "verifySignature rt eng a")
    obtain ok2 calls2 where v2: "verifySignature rt (eng\<lparr>verify := v\<rparr>) a = (ok2, calls2)"
      by (cases "verifySignature rt (eng\<lparr>verify := v\<rparr>) a")
    have "calls2 = calls'"
      using verifySignature_calls_ignore_verify [where rt = rt and eng = eng and v = v and a = a] v v2
      by simp
    with Inr g a v v2 show ?thesis
      by (simp add: main_def generate_ignores_verify)
  qed
qed

section \<open>Assigning a property\<close>

lemma props_without_assign:
  "k \<in> set ks \<Longrightarrow> props_without ks (assign_prop ps k v) = props_without ks ps"
  by (induction ps) (auto simp: props_without_def)

lemma lookup_assign_same: "lookup_prop (assign_prop ps k v) k = v"
  by (induction ps) (auto simp: lookup_prop_def)

lemma lookup_assign_other: "k' \<noteq> k \<Longrightarrow> lookup_prop (assign_prop ps k v) k' = lookup_prop ps k'"
  by (induction ps) (auto simp: lookup_prop_def)

lemma set_prop_frame:
  assumes "set_prop m k v = Inr m'"
  shows "get_prop m' k = Inr v"
    and "k' \<noteq> k \<Longrightarrow> get_prop m' k' = get_prop m k'"
    and "k \<in> set ks \<Longrightarrow> same_outside ks m m'"
  using assms
  by (cases m; auto simp: set_prop_def get_prop_def lookup_assign_same lookup_assign_other
        props_without_assign)+

lemma props_without_mono:
  assumes "set ks \<subseteq> set ks'" "props_without ks ps = props_without ks ps'"
  shows "props_without ks' ps = props_without ks' ps'"
proof -
  have "props_without ks' qs = props_without ks' (props_without ks qs)" for qs
    using assms(1) by (induction qs) (auto simp: props_without_def)
  then show ?thesis using assms(2) by metis
qed

lemma same_outside_mono:
  "set ks \<subseteq> set ks' \<Longrightarrow> same_outside ks m m' \<Longrightarrow> same_outside ks' m m'"
  by (cases m; cases m') (auto dest: props_without_mono)

lemma same_outside_trans:
  "same_outside ks a b \<Longrightarrow> same_outside ks b c \<Longrightarrow> same_outside ks a c"
  by (cases a; cases b; cases c) auto

lemma main_exit_0:
  assumes "exit_status (main rt eng c0 fs) = 0"
  shows "\<exists>c calls a m. validateConfig c0 = Inr c
           \<and> generateAccountAssociation rt eng c = (calls, Inr a)
           \<and> set_prop (loadOrCreateManifest rt c fs) ''accountAssociation''
                (association_value a) = Inr m
           \<and> \<not> unwritable fs (manifestPath c)"
proof (cases "validateConfig c0")
  case (Inl n)
  then have "n = 1" by (simp add: validateConfig_cases split: if_splits)
  with Inl assms show ?thesis by (simp add: main_def)
next
  case (Inr c)
  obtain calls r where g: "generateAccountAssociation rt eng c = (calls, r)"
    by (cases "generateAccountAssociation rt eng c")
  show ?thesis
  proof (cases r)
    case (Inl e)
    with Inr g assms show ?thesis by (simp add: main_def)
  next
    case a: (Inr a)
    show ?thesis
    proof (cases "set_prop (loadOrCreateManifest rt c fs) ''accountAssociation'' (association_value a)")
      case (Inl e)
      with Inr g a assms show ?thesis
        by (simp add: main_def Let_def split: prod.splits)
    next
      case m: (Inr m)
      with Inr g a assms have "\<not> unwritable fs (manifestPath c)"
        by (auto simp: main_def Let_def saveManifest_def split: prod.splits if_splits)
      with Inr g a m show ?thesis by simp
    qed
  qed
qed


lemma updateManifest_Inr:
  assumes "updateManifest rt c fs v = Inr (m', fs')"
  shows "\<exists>content m m1 mini.
           contents fs (manifestPath c) = Some content
         \<and> JSON_parse_utf8 rt content = Some m
         \<and> set_prop m ''accountAssociation'' v = Inr m1
         \<and> get_prop m1 ''miniapp'' = Inr mini
         \<and> (if truthy mini
             then (\<exists>mini'. set_prop mini ''homeUrl'' (env_value (domain c)) = Inr mini'
                          \<and> set_prop m1 ''miniapp'' mini' = Inr m')
             else m' = m1)
         \<and> fs' = fs\<lparr>contents := (contents fs)(manifestPath c \<mapsto>
                     utf8_encode (JSON_stringify_indent2 rt m'))\<rparr>"
  using assms
  by (auto simp: updateManifest_def split: option.splits sum.splits if_splits)

section \<open>Properties of \<^verbatim>\<open>verifyAccountAssociation\<close>\<close>

lemma get_prop_truthy: "truthy v \<Longrightarrow> \<exists>x. get_prop v k = Inr x"
  by (cases v) (simp_all add: get_prop_def truthy_def)

lemma hexToBytes_verifier_None: "hexToBytes_verifier key = None \<longleftrightarrow> (\<forall>s. key \<noteq> JStr s)"
  by (cases key) (simp_all add: hexToBytes_verifier_def hexToBytes_def Let_def)

lemma domainValid_of_Inl:
  "domainValid_of d = Inl e \<longleftrightarrow> e = TypeError \<and> truthy d \<and> (\<forall>s. d \<noteq> JStr s)"
  by (cases d) (auto simp: domainValid_of_def truthy_def)

lemma verification_report_cases:
  assumes "truthy header0" "truthy payload0"
  shows "verification_report eng header0 payload0 sg msg pub =
     (case get_prop payload0 ''domain'' of
        Inl e \<Rightarrow> Threw e
      | Inr d \<Rightarrow>
          (case domainValid_of d of
             Inl e \<Rightarrow> Threw e
           | Inr dv \<Rightarrow>
               (case get_prop header0 ''fid'' of
                  Inl e \<Rightarrow> Threw e
                | Inr f \<Rightarrow>
                    Returned
                      \<lparr>headerValid = True, payloadValid = True,
                       domainFormatValid = dv, fidValid = fidValid_of f,
                       signatureValid = (verify eng sg (utf8_encode msg) pub = Inr True),
                       signatureFormat =
                         (if verify eng sg (utf8_encode msg) pub = Inr True
                          then ''real/ed25519'' else ''invalid''),
                       canVerifySignature = True,
                       message =
                         (if verify eng sg (utf8_encode msg) pub = Inr True
                          then ''Real Ed25519 signature verified successfully''
                          else ''Signature verification failed'')\<rparr>)))"
  using assms
  by (auto simp: verification_report_def Let_def split: sum.splits)

lemma verify_strings:
  assumes "get_prop aa ''header'' = Inr (JStr h)"
    and "get_prop aa ''payload'' = Inr (JStr p)"
    and "get_prop aa ''signature'' = Inr (JStr s)"
  shows "verifyAccountAssociation rt eng aa =
     (if \<not> truthy (decodeBase64 rt (JStr h)) then ReturnedFalse
      else if \<not> truthy (decodeBase64 rt (JStr p)) then ReturnedFalse
      else case get_prop (decodeBase64 rt (JStr h)) ''key'' of
             Inl e \<Rightarrow> Threw e
           | Inr key \<Rightarrow>
               (case hexToBytes_verifier key of
                  None \<Rightarrow> ReturnedFalse
                | Some pub \<Rightarrow>
                    verification_report eng (decodeBase64 rt (JStr h)) (decodeBase64 rt (JStr p))
                      (base64_decode s) (composeMessage h p) pub))"
  using assms
  by (simp add: verifyAccountAssociation_def Let_def Buffer_from_base64_def
      signature_preview_def message_of_def plus_operand_def)

lemma verify_null: "get_prop aa ''header'' = Inl e \<Longrightarrow> verifyAccountAssociation rt eng aa = Threw e"
  by (simp add: verifyAccountAssociation_def)

lemma verify_ReturnedFalse:
  assumes "get_prop aa ''header'' = Inr (JStr h)"
    and "get_prop aa ''payload'' = Inr (JStr p)"
    and "get_prop aa ''signature'' = Inr (JStr s)"
  shows "verifyAccountAssociation rt eng aa = ReturnedFalse \<longleftrightarrow>
     \<not> truthy (decodeBase64 rt (JStr h)) \<or> \<not> truthy (decodeBase64 rt (JStr p))
     \<or> (\<forall>k. get_prop (decodeBase64 rt (JStr h)) ''key'' \<noteq> Inr (JStr k))"
proof (cases "truthy (decodeBase64 rt (JStr h)) \<and> truthy (decodeBase64 rt (JStr p))")
  case False
  then show ?thesis by (auto simp: verify_strings [OF assms])
next
  case True
  then obtain key where key: "get_prop (decodeBase64 rt (JStr h)) ''key'' = Inr key"
    using get_prop_truthy by blast
  from True obtain d where d: "get_prop (decodeBase64 rt (JStr p)) ''domain'' = Inr d"
    using get_prop_truthy by blast
  from True obtain f where f: "get_prop (decodeBase64 rt (JStr h)) ''fid'' = Inr f"
    using get_prop_truthy by blast
  show ?thesis
  proof (cases "hexToBytes_verifier key")
    case None
    then have "\<forall>s. key \<noteq> JStr s" by (simp add: hexToBytes_verifier_None)
    with None True key show ?thesis by (simp add: verify_strings [OF assms])
  next
    case (Some pub)
    then have "\<not> (\<forall>s. key \<noteq> JStr s)"
      using hexToBytes_verifier_None [of key] by simp
    with Some True key d f show ?thesis
      by (simp add: verify_strings [OF assms] verification_report_cases split: sum.splits)
  qed
qed

lemma verify_Returned:
  assumes "get_prop aa ''header'' = Inr (JStr h)"
    and "get_prop aa ''payload'' = Inr (JStr p)"
    and "get_prop aa ''signature'' = Inr (JStr s)"
    and "verifyAccountAssociation rt eng aa = Returned r"
  shows "headerValid r \<and> payloadValid r \<and> canVerifySignature r
     \<and> (\<exists>d. get_prop (decodeBase64 rt (JStr p)) ''domain'' = Inr d
             \<and> domainValid_of d = Inr (domainFormatValid r))
     \<and> (\<exists>f. get_prop (decodeBase64 rt (JStr h)) ''fid'' = Inr f
             \<and> fidValid r = fidValid_of f)
     \<and> (\<exists>key pub. get_prop (decodeBase64 rt (JStr h)) ''key'' = Inr key
             \<and> hexToBytes_verifier key = Some pub
             \<and> signatureValid r =
                 (verify eng (base64_decode s) (utf8_encode (composeMessage h p)) pub = Inr True))"
proof -
  from assms(4) have t: "truthy (decodeBase64 rt (JStr h))" "truthy (decodeBase64 rt (JStr p))"
    by (auto simp: verify_strings [OF assms(1-3)] split: if_splits)
  from t obtain key where key: "get_prop (decodeBase64 rt (JStr h)) ''key'' = Inr key"
    using get_prop_truthy by blast
  from assms(4) t key obtain pub where pub: "hexToBytes_verifier key = Some pub"
    by (cases "hexToBytes_verifier key") (simp_all add: verify_strings [OF assms(1-3)])
  from assms(4) t key pub show ?thesis
    by (auto simp: verify_strings [OF assms(1-3)] verification_report_cases [OF t]
        split: sum.splits)
qed

lemma verify_Threw:
  assumes "get_prop aa ''header'' = Inr (JStr h)"
    and "get_prop aa ''payload'' = Inr (JStr p)"
    and "get_prop aa ''signature'' = Inr (JStr s)"
    and "verifyAccountAssociation rt eng aa = Threw e"
  shows "e = TypeError
     \<and> (\<exists>d. get_prop (decodeBase64 rt (JStr p)) ''domain'' = Inr d
             \<and> truthy d \<and> (\<forall>s. d \<noteq> JStr s))"
proof -
  from assms(4) have t: "truthy (decodeBase64 rt (JStr h))" "truthy (decodeBase64 rt (JStr p))"
    by (auto simp: verify_strings [OF assms(1-3)] split: if_splits)
  then obtain key where key: "get_prop (decodeBase64 rt (JStr h)) ''key'' = Inr key"
    using get_prop_truthy by blast
  from t obtain d where d: "get_prop (decodeBase64 rt (JStr p)) ''domain'' = Inr d"
    using get_prop_truthy by blast
  from t obtain f where f: "get_prop (decodeBase64 rt (JStr h)) ''fid'' = Inr f"
    using get_prop_truthy by blast
  from assms(4) t key d f have "domainValid_of d = Inl e"
    by (cases "hexToBytes_verifier key"; cases "domainValid_of d")
       (simp_all add: verify_strings [OF assms(1-3)] verification_report_cases [OF t])
  then show ?thesis using d by (simp add: domainValid_of_Inl)
qed

lemma unsigned_view_report:
  "truthy header0 \<Longrightarrow> truthy payload0 \<Longrightarrow>
   unsigned_view (verification_report eng' header0 payload0 sg' msg pub)
     = unsigned_view (verification_report eng header0 payload0 sg msg pub)"
  by (simp add: verification_report_cases unsigned_view_def split: sum.splits)

lemma unsigned_view_independent:
  assumes "get_prop aa ''header'' = Inr (JStr h)"
    and "get_prop aa ''payload'' = Inr (JStr p)"
    and "get_prop aa ''signature'' = Inr (JStr s)"
    and "get_prop aa' ''header'' = Inr (JStr h)"
    and "get_prop aa' ''payload'' = Inr (JStr p)"
    and "get_prop aa' ''signature'' = Inr (JStr s')"
  shows "unsigned_view (verifyAccountAssociation rt eng' aa')
     = unsigned_view (verifyAccountAssociation rt eng aa)"
proof (cases "truthy (decodeBase64 rt (JStr h)) \<and> truthy (decodeBase64 rt (JStr p))")
  case False
  then show ?thesis
    by (auto simp: verify_strings [OF assms(1-3)] verify_strings [OF assms(4-6)])
next
  case True
  then show ?thesis
    using unsigned_view_report [of "decodeBase64 rt (JStr h)" "decodeBase64 rt (JStr p)"]
    by (simp add: verify_strings [OF assms(1-3)] verify_strings [OF assms(4-6)]
        split: sum.splits option.splits)
qed

lemma no_buffer_decode: "no_buffer v \<Longrightarrow> decodeBase64 rt v = JNull"
  by (cases v) (simp_all add: no_buffer_def decodeBase64_def Buffer_from_base64_def)

lemma no_buffer_throws: "no_buffer v \<Longrightarrow> Buffer_from_base64 rt v = Inl TypeError"
  by (cases v) (simp_all add: no_buffer_def Buffer_from_base64_def)

lemma verify_no_header:
  "get_prop aa ''header'' = Inr hv \<Longrightarrow> no_buffer hv \<Longrightarrow>
   verifyAccountAssociation rt eng aa = ReturnedFalse"
  by (simp add: verifyAccountAssociation_def no_buffer_decode truthy_def)

lemma verify_no_payload:
  "get_prop aa ''header'' = Inr hv \<Longrightarrow> truthy (decodeBase64 rt hv) \<Longrightarrow>
   get_prop aa ''payload'' = Inr pv \<Longrightarrow> no_buffer pv \<Longrightarrow>
   verifyAccountAssociation rt eng aa = ReturnedFalse"
  by (simp add: verifyAccountAssociation_def no_buffer_decode truthy_def)

lemma verify_no_signature:
  "get_prop aa ''header'' = Inr hv \<Longrightarrow> truthy (decodeBase64 rt hv) \<Longrightarrow>
   get_prop aa ''payload'' = Inr pv \<Longrightarrow> truthy (decodeBase64 rt pv) \<Longrightarrow>
   get_prop aa ''signature'' = Inr sv \<Longrightarrow> no_buffer sv \<Longrightarrow>
   verifyAccountAssociation rt eng aa = Threw TypeError"
  by (simp add: verifyAccountAssociation_def no_buffer_throws)

lemma verify_object_signature:
  "get_prop aa ''header'' = Inr hv \<Longrightarrow> truthy (decodeBase64 rt hv) \<Longrightarrow>
   get_prop aa ''payload'' = Inr pv \<Longrightarrow> truthy (decodeBase64 rt pv) \<Longrightarrow>
   get_prop aa ''signature'' = Inr (JObj ps) \<Longrightarrow>
   \<exists>e. verifyAccountAssociation rt eng aa = Threw e"
proof -
  assume a: "get_prop aa ''header'' = Inr hv" "truthy (decodeBase64 rt hv)"
    "get_prop aa ''payload'' = Inr pv" "truthy (decodeBase64 rt pv)"
    "get_prop aa ''signature'' = Inr (JObj ps)"
  have p: "signature_preview rt (JObj ps) = Inl TypeError"
    by (simp add: signature_preview_def)
  show ?thesis
    using a p
    by (cases "Buffer_from_base64 rt (JObj ps)")
       (simp_all add: verifyAccountAssociation_def Let_def)
qed

lemma verify_Returned_iff:
  assumes "get_prop aa ''header'' = Inr (JStr h)"
    and "get_prop aa ''payload'' = Inr (JStr p)"
    and "get_prop aa ''signature'' = Inr (JStr s)"
  shows "(\<exists>r. verifyAccountAssociation rt eng aa = Returned r) \<longleftrightarrow>
     truthy (decodeBase64 rt (JStr h)) \<and> truthy (decodeBase64 rt (JStr p))
     \<and> (\<exists>k. get_prop (decodeBase64 rt (JStr h)) ''key'' = Inr (JStr k))
     \<and> (\<exists>d. get_prop (decodeBase64 rt (JStr p)) ''domain'' = Inr d
             \<and> (truthy d \<longrightarrow> (\<exists>t. d = JStr t)))"
    (is "?L \<longleftrightarrow> ?R")
proof
  assume ?L
  then obtain r where r: "verifyAccountAssociation rt eng aa = Returned r" ..
  then have "verifyAccountAssociation rt eng aa \<noteq> ReturnedFalse" by simp
  then have g: "truthy (decodeBase64 rt (JStr h))" "truthy (decodeBase64 rt (JStr p))"
    "\<exists>k. get_prop (decodeBase64 rt (JStr h)) ''key'' = Inr (JStr k)"
    using verify_ReturnedFalse [OF assms, of rt eng] by blast+
  from verify_Returned [OF assms r] obtain d where
    d: "get_prop (decodeBase64 rt (JStr p)) ''domain'' = Inr d"
      "domainValid_of d = Inr (domainFormatValid r)"
    by blast
  from d(2) have "\<not> (truthy d \<and> (\<forall>t. d \<noteq> JStr t))"
    using domainValid_of_Inl [of d TypeError] by simp
  with g d(1) show ?R by blast
next
  assume R: ?R
  then have nf: "verifyAccountAssociation rt eng aa \<noteq> ReturnedFalse"
    using verify_ReturnedFalse [OF assms, of rt eng] by blast
  from R obtain d where d: "get_prop (decodeBase64 rt (JStr p)) ''domain'' = Inr d"
    "truthy d \<longrightarrow> (\<exists>t. d = JStr t)"
    by blast
  have nt: "verifyAccountAssociation rt eng aa \<noteq> Threw e" for e
  proof
    assume "verifyAccountAssociation rt eng aa = Threw e"
    from verify_Threw [OF assms this] d show False by auto
  qed
  from nf nt show ?L by (cases "verifyAccountAssociation rt eng aa") auto
qed

section \<open>The example, evaluated\<close>

lemma ex_validate: "validateConfig example_config = Inr example_config"
  by code_simp

lemma ex_private_key: "hexToBytes (env_value (privateKey example_config)) = Inr (replicate 32 1)"
  by code_simp

lemma ex_header_object:
  "JObj [(''fid'', number_value (Some 3621)), (''type'', JStr ''custody''),
         (''key'', JStr (''0x'' @ bytesToHex (replicate 32 2)))] = example_header"
  by code_simp

lemma ex_header_base64:
  "base64_encode (utf8_encode example_header_text) = header example_association"
  by code_simp

lemma ex_payload_base64:
  "base64_encode (utf8_encode example_payload_text) = payload example_association"
  by code_simp

lemma ex_signature: "base64_encode (replicate 64 7) = signature example_association"
  by code_simp

lemma ex_public_key:
  "hexToBytes (JStr ''0x0202020202020202020202020202020202020202020202020202020202020202'')
     = Inr (replicate 32 2)"
  by code_simp

lemma ex_merge:
  "set_prop (default_manifest example_config) ''accountAssociation''
     (association_value example_association) = Inr example_manifest"
  by code_simp

lemma ex_texts_differ:
  "example_payload \<noteq> example_header"
  "utf8_encode example_payload_text \<noteq> utf8_encode example_header_text"
  "utf8_encode old_manifest_text \<noteq> utf8_encode example_header_text"
  "utf8_encode old_manifest_text \<noteq> utf8_encode example_payload_text"
  "([] :: bytes) \<noteq> utf8_encode example_header_text"
  "([] :: bytes) \<noteq> utf8_encode example_payload_text"
  "([] :: bytes) \<noteq> utf8_encode old_manifest_text"
  by code_simp+

lemma ex_header:
  assumes "parseInt (env_ToString f) None = Some 3621"
  shows "createHeader example_runtime f (replicate 32 2) = header example_association"
  using assms ex_header_object
  by (simp add: createHeader_def example_runtime_def ex_header_base64)

lemma ex_payload:
  "createPayload example_runtime (Some ''example.com'') = payload example_association"
  using ex_texts_differ(1)
  by (simp add: createPayload_def example_runtime_def env_value_def ex_payload_base64
      flip: example_payload_def)

lemma ex_generate:
  assumes "privateKey c = privateKey example_config"
    and "domain c = Some ''example.com''"
    and "parseInt (env_ToString (fid c)) None = Some 3621"
  shows "generateAccountAssociation example_runtime (toy_engine v) c
     = ([GetPublicKey (replicate 32 1),
         Sign (utf8_encode (composeMessage (header example_association)
                                           (payload example_association)))
              (replicate 32 1)],
        Inr example_association)"
proof -
  have "hexToBytes (JStr (CHR ''0'' # CHR ''x'' # bytesToHex (replicate 64 7))) = Inr (replicate 64 7)"
    by (rule hexToBytes_prefixed)
  then show ?thesis
    using assms ex_private_key ex_header [OF assms(3)] ex_payload ex_signature
    by (simp add: generateAccountAssociation_def signMessage_def toy_engine_def Let_def
        example_association_def)
qed

lemma ex_parse_header:
  "JSON_parse_utf8 example_runtime (base64_decode (header example_association))
     = Some example_header"
  by (simp add: example_runtime_def base64_decode_encode flip: ex_header_base64)

lemma ex_parse_payload:
  "JSON_parse_utf8 example_runtime (base64_decode (payload example_association))
     = Some example_payload"
  using ex_texts_differ(2)
  by (simp add: example_runtime_def base64_decode_encode flip: ex_payload_base64)

lemma ex_decode_signature: "base64_decode (signature example_association) = replicate 64 7"
  by (simp add: base64_decode_encode flip: ex_signature)

lemma ex_verifySignature:
  "verifySignature example_runtime (toy_engine v) example_association
     = (v, [Verify (replicate 64 7)
                   (utf8_encode (composeMessage (header example_association)
                                                (payload example_association)))
                   (replicate 32 2)])"
  using ex_public_key
  by (simp add: verifySignature_def ex_parse_header ex_decode_signature get_prop_def
      lookup_prop_def example_header_def toy_engine_def Let_def)

lemma ex_load:
  "domain c = Some ''example.com'' \<Longrightarrow>
   loadOrCreateManifest example_runtime c no_files = default_manifest example_config"
  by (simp add: loadOrCreateManifest_def no_files_def default_manifest_def example_config_def)

lemma ex_main:
  assumes "validateConfig c0 = Inr c0"
    and "privateKey c0 = privateKey example_config"
    and "domain c0 = Some ''example.com''"
    and "manifestPath c0 = manifestPath example_config"
    and "parseInt (env_ToString (fid c0)) None = Some 3621"
  shows "main example_runtime (toy_engine v) c0 no_files =
           \<lparr>exit_status = 0,
            files = no_files\<lparr>contents := (contents no_files)(manifestPath example_config \<mapsto>
                         utf8_encode example_manifest_text)\<rparr>,
            crypto = [GetPublicKey (replicate 32 1),
                      Sign (utf8_encode (composeMessage (header example_association)
                                                        (payload example_association)))
                           (replicate 32 1),
                      Verify (replicate 64 7)
                             (utf8_encode (composeMessage (header example_association)
                                                          (payload example_association)))
                             (replicate 32 2)]\<rparr>"
proof -
  have m: "set_prop (loadOrCreateManifest example_runtime c0 no_files) ''accountAssociation''
             (association_value example_association) = Inr example_manifest"
    using ex_load [OF assms(3)] ex_merge by simp
  have w: "\<not> unwritable no_files (manifestPath c0)"
    by (simp add: no_files_def)
  have t: "JSON_stringify_indent2 example_runtime example_manifest = example_manifest_text"
    by (simp add: example_runtime_def)
  show ?thesis
    using main_success [OF assms(1) ex_generate [OF assms(2,3,5)] m w] assms(4)
    by (simp add: ex_verifySignature t)
qed

lemma ex_updateManifest:
  "updateManifest example_runtime example_config old_files (association_value example_association)
     = Inr (JObj [(''miniapp'', JObj [(''name'', JStr ''Demo''), (''homeUrl'', JStr ''example.com'')]),
                  (''accountAssociation'', association_value example_association)],
            old_files\<lparr>contents := (contents old_files)(manifestPath example_config \<mapsto>
              utf8_encode (JSON_stringify_indent2 example_runtime
                (JObj [(''miniapp'', JObj [(''name'', JStr ''Demo''), (''homeUrl'', JStr ''example.com'')]),
                       (''accountAssociation'', association_value example_association)])))\<rparr>)"
proof -
  have 1: "contents old_files (manifestPath example_config) = Some (utf8_encode old_manifest_text)"
    by (simp add: old_files_def example_config_def)
  have 2: "JSON_parse_utf8 example_runtime (utf8_encode old_manifest_text) = Some old_manifest"
    using ex_texts_differ by (simp add: example_runtime_def)
  have 3: "\<not> unwritable old_files (manifestPath example_config)"
    by (simp add: old_files_def)
  have 4: "domain example_config = Some ''example.com''"
    by (simp add: example_config_def)
  show ?thesis
    using 3 by (simp add: updateManifest_def 1 2 4 old_manifest_def set_prop_def get_prop_def
        lookup_prop_def truthy_def env_value_def)
qed

lemma ex_decode_empty: "decodeBase64 example_runtime (JStr []) = JNull"
  using ex_texts_differ
  by (simp add: decodeBase64_def Buffer_from_base64_def base64_decode_def example_runtime_def)

lemma ex_decode_header:
  "decodeBase64 example_runtime (JStr (header example_association)) = example_header"
  by (simp add: decodeBase64_def Buffer_from_base64_def ex_parse_header)

lemma ex_decode_payload:
  "decodeBase64 example_runtime (JStr (payload example_association)) = example_payload"
  by (simp add: decodeBase64_def Buffer_from_base64_def ex_parse_payload)

lemma ex_truthy: "truthy example_header" "truthy example_payload"
  by (simp_all add: example_header_def example_payload_def truthy_def)

lemma ex_fields:
  "get_prop (association_value a) ''header'' = Inr (JStr (header a))"
  "get_prop (association_value a) ''payload'' = Inr (JStr (payload a))"
  "get_prop (association_value a) ''signature'' = Inr (JStr (signature a))"
  by (simp_all add: association_value_def get_prop_def lookup_prop_def)

lemma ex_verifyAccountAssociation:
  "verifyAccountAssociation example_runtime (toy_engine v)
       (association_value (example_association\<lparr>signature := s\<rparr>))
     = Returned \<lparr>headerValid = True, payloadValid = True, domainFormatValid = JBool True,
                 fidValid = JBool True, signatureValid = v,
                 signatureFormat = (if v then ''real/ed25519'' else ''invalid''),
                 canVerifySignature = True,
                 message = (if v then ''Real Ed25519 signature verified successfully''
                            else ''Signature verification failed'')\<rparr>"
proof -
  let ?a = "example_association\<lparr>signature := s\<rparr>"
  have k: "hexToBytes_verifier
             (JStr ''0x0202020202020202020202020202020202020202020202020202020202020202'')
           = Some (replicate 32 2)"
    by (simp add: hexToBytes_verifier_def ex_public_key)
  have d: "domainValid_of (JStr ''example.com'') = Inr (JBool True)"
    by code_simp
  have f: "fidValid_of (JNum 3621) = JBool True"
    by (simp add: fidValid_of_def truthy_def)
  have g: "get_prop example_header ''key''
             = Inr (JStr ''0x0202020202020202020202020202020202020202020202020202020202020202'')"
    "get_prop example_header ''fid'' = Inr (JNum 3621)"
    "get_prop example_payload ''domain'' = Inr (JStr ''example.com'')"
    by (simp_all add: example_header_def example_payload_def get_prop_def lookup_prop_def)
  have "verifyAccountAssociation example_runtime (toy_engine v) (association_value ?a)
      = verification_report (toy_engine v) example_header example_payload
          (base64_decode s)
          (composeMessage (header example_association) (payload example_association))
          (replicate 32 2)"
    using verify_strings [OF ex_fields, of example_runtime "toy_engine v" ?a]
    by (simp add: ex_decode_header ex_decode_payload ex_truthy g k)
  then show ?thesis
    by (simp add: verification_report_cases ex_truthy g d f toy_engine_def)
qed

section \<open>The claims\<close>

text \<open>
  One theorem for each claim of the specification that is settled here, in the order of
  the claims. Where the scripts do something else than the claim says, a closed example
  shows it first and the theorem states what they do. For claim C7 the example is the
  theorem: there the code departs from its own comment. Claim C2, that signing and
  verifying with the same key pair succeeds, is a property of the Ed25519 library alone,
  which is a parameter here; there is no theorem for it.
\<close>

text \<open>
  Claim C1 says that a run whose self-check returns false fails before the manifest is
  written. \<^verbatim>\<open>main\<close> awaits \<^verbatim>\<open>verifySignature\<close> and drops its result: with a library whose
  \<^verbatim>\<open>verify\<close> answers false, the self-check is false, and the run still exits with status
  0 and has written the manifest holding the association.
\<close>

theorem generate_saves_unverified_counterexample:
  "\<not> fst (verifySignature example_runtime (toy_engine False) example_association)
   \<and> snd (generateAccountAssociation example_runtime (toy_engine False) example_config)
       = Inr example_association
   \<and> exit_status (main example_runtime (toy_engine False) example_config no_files) = 0
   \<and> contents (files (main example_runtime (toy_engine False) example_config no_files))
        (manifestPath example_config)
       = Some (utf8_encode example_manifest_text)"
proof -
  have p: "parseInt (env_ToString (fid example_config)) None = Some 3621"
    by code_simp
  have d: "domain example_config = Some ''example.com''"
    by (simp add: example_config_def)
  show ?thesis
    using ex_main [OF ex_validate refl d refl p, of False] ex_generate [OF refl d p, of False]
    by (simp add: ex_verifySignature)
qed

text \<open>
  Claim C1, amended. The generator runs the self-check after signing and only reports
  its result: exchanging the library's \<^verbatim>\<open>verify\<close> for any other function changes nothing
  in the run (exit status, files, calls made). Whenever validation and generation
  succeed, the loaded manifest takes the assignment and the file can be written, the run
  exits with status 0 and the file is \<^verbatim>\<open>JSON.stringify(manifest, null, 2)\<close> of the manifest
  after the assignment, whose property \<^verbatim>\<open>accountAssociation\<close> is the new association,
  whatever the self-check returned. What \<^verbatim>\<open>JSON.stringify\<close> writes of that manifest is the
  runtime's.
\<close>

theorem main_discards_self_check:
  assumes "validateConfig c0 = Inr c"
    and "generateAccountAssociation rt eng c = (calls, Inr a)"
    and "set_prop (loadOrCreateManifest rt c fs) ''accountAssociation'' (association_value a) = Inr m"
    and "\<not> unwritable fs (manifestPath c)"
  shows "main rt (eng\<lparr>verify := v\<rparr>) c0 fs = main rt eng c0 fs
         \<and> exit_status (main rt eng c0 fs) = 0
         \<and> contents (files (main rt eng c0 fs)) (manifestPath c)
             = Some (utf8_encode (JSON_stringify_indent2 rt m))
         \<and> get_prop m ''accountAssociation'' = Inr (association_value a)"
  using main_success [OF assms] main_ignores_verify [where rt = rt and eng = eng and v = v]
    set_prop_frame(1) [OF assms(3)]
  by simp

text \<open>The hypotheses of claim C1's theorem hold on the example, and it applies there.\<close>

theorem main_discards_self_check_witness:
  "validateConfig example_config = Inr example_config
   \<and> \<not> unwritable no_files (manifestPath example_config)
   \<and> main example_runtime ((toy_engine True)\<lparr>verify := (\<lambda>s m p. Inr False)\<rparr>) example_config no_files
       = main example_runtime (toy_engine True) example_config no_files
   \<and> exit_status (main example_runtime (toy_engine True) example_config no_files) = 0
   \<and> contents (files (main example_runtime (toy_engine True) example_config no_files))
        (manifestPath example_config)
       = Some (utf8_encode example_manifest_text)
   \<and> get_prop example_manifest ''accountAssociation''
       = Inr (association_value example_association)"
proof -
  have p: "parseInt (env_ToString (fid example_config)) None = Some 3621"
    by code_simp
  have d: "domain example_config = Some ''example.com''"
    by (simp add: example_config_def)
  have m: "set_prop (loadOrCreateManifest example_runtime example_config no_files)
             ''accountAssociation'' (association_value example_association) = Inr example_manifest"
    using ex_load [OF d] ex_merge by simp
  have w: "\<not> unwritable no_files (manifestPath example_config)"
    by (simp add: no_files_def)
  from main_discards_self_check [OF ex_validate ex_generate [OF refl d p] m w,
      where v = "\<lambda>s m p. Inr False" and v1 = True]
  moreover have "JSON_stringify_indent2 example_runtime example_manifest = example_manifest_text"
    by (simp add: example_runtime_def)
  ultimately show ?thesis using ex_validate w by simp
qed

text \<open>
  Claim C3 says that merging the association changes the manifest at \<^verbatim>\<open>accountAssociation\<close>
  only. \<^verbatim>\<open>updateManifest\<close> of the placeholder generator also sets \<^verbatim>\<open>miniapp.homeUrl\<close> to
  the configured domain: a manifest whose \<^verbatim>\<open>homeUrl\<close> was \<^verbatim>\<open>https://old.example\<close> comes back
  with \<^verbatim>\<open>example.com\<close>.
\<close>

theorem updateManifest_changes_miniapp_counterexample:
  "JSON_parse_utf8 example_runtime (utf8_encode old_manifest_text) = Some old_manifest
   \<and> get_prop old_manifest ''miniapp''
       = Inr (JObj [(''name'', JStr ''Demo''), (''homeUrl'', JStr ''https://old.example'')])
   \<and> map_sum id fst (updateManifest example_runtime example_config old_files
                        (association_value example_association))
       = Inr (JObj [(''miniapp'', JObj [(''name'', JStr ''Demo''),
                                        (''homeUrl'', JStr ''example.com'')]),
                    (''accountAssociation'', association_value example_association)])"
proof -
  have "JSON_parse_utf8 example_runtime (utf8_encode old_manifest_text) = Some old_manifest"
    using ex_texts_differ by (simp add: example_runtime_def)
  moreover have "get_prop old_manifest ''miniapp''
       = Inr (JObj [(''name'', JStr ''Demo''), (''homeUrl'', JStr ''https://old.example'')])"
    by (simp add: old_manifest_def get_prop_def lookup_prop_def)
  ultimately show ?thesis by (simp add: ex_updateManifest)
qed

text \<open>
  Claim C3, amended. In the generator with real signatures a run that ends with status 0
  has written the loaded (or default) manifest with \<^verbatim>\<open>accountAssociation\<close> replaced by the
  new association and every other top-level property unchanged. \<^verbatim>\<open>updateManifest\<close> of the
  placeholder generator, when it returns, has written the parsed manifest with
  \<^verbatim>\<open>accountAssociation\<close> replaced; when the manifest has a truthy \<^verbatim>\<open>miniapp\<close> it has also
  set \<^verbatim>\<open>homeUrl\<close> of that object to the configured domain, leaving its other properties
  and all other top-level properties unchanged.
\<close>

theorem merge_replaces_accountAssociation:
  "(exit_status (main rt eng cfg fs) = 0 \<longrightarrow>
      (\<exists>c a m'. validateConfig cfg = Inr c
         \<and> snd (generateAccountAssociation rt eng c) = Inr a
         \<and> contents (files (main rt eng cfg fs)) (manifestPath c)
             = Some (utf8_encode (JSON_stringify_indent2 rt m'))
         \<and> get_prop m' ''accountAssociation'' = Inr (association_value a)
         \<and> same_outside [''accountAssociation''] (loadOrCreateManifest rt c fs) m'))
   \<and> (updateManifest rtb cb fsb v = Inr (m', fsb') \<longrightarrow>
      (\<exists>content m mini.
           contents fsb (manifestPath cb) = Some content
         \<and> JSON_parse_utf8 rtb content = Some m
         \<and> contents fsb' (manifestPath cb) = Some (utf8_encode (JSON_stringify_indent2 rtb m'))
         \<and> get_prop m' ''accountAssociation'' = Inr v
         \<and> get_prop m ''miniapp'' = Inr mini
         \<and> (if truthy mini
             then same_outside [''accountAssociation'', ''miniapp''] m m'
                  \<and> (\<exists>mini'. get_prop m' ''miniapp'' = Inr mini'
                               \<and> get_prop mini' ''homeUrl'' = Inr (env_value (domain cb))
                               \<and> same_outside [''homeUrl''] mini mini')
             else same_outside [''accountAssociation''] m m')))"
proof (intro conjI impI)
  assume "exit_status (main rt eng cfg fs) = 0"
  from main_exit_0 [OF this] obtain c calls a m where
    v: "validateConfig cfg = Inr c" and g: "generateAccountAssociation rt eng c = (calls, Inr a)"
    and m: "set_prop (loadOrCreateManifest rt c fs) ''accountAssociation''
              (association_value a) = Inr m"
    and w: "\<not> unwritable fs (manifestPath c)"
    by blast
  have "contents (files (main rt eng cfg fs)) (manifestPath c)
          = Some (utf8_encode (JSON_stringify_indent2 rt m))"
    using main_success [OF v g m w] by simp
  moreover have "get_prop m ''accountAssociation'' = Inr (association_value a)"
    using set_prop_frame(1) [OF m] .
  moreover have "same_outside [''accountAssociation''] (loadOrCreateManifest rt c fs) m"
    using set_prop_frame(3) [OF m] by simp
  ultimately show "\<exists>c a m'. validateConfig cfg = Inr c
         \<and> snd (generateAccountAssociation rt eng c) = Inr a
         \<and> contents (files (main rt eng cfg fs)) (manifestPath c)
             = Some (utf8_encode (JSON_stringify_indent2 rt m'))
         \<and> get_prop m' ''accountAssociation'' = Inr (association_value a)
         \<and> same_outside [''accountAssociation''] (loadOrCreateManifest rt c fs) m'"
    using v g by (intro exI [of _ c] exI [of _ a] exI [of _ m]) simp
next
  assume "updateManifest rtb cb fsb v = Inr (m', fsb')"
  from updateManifest_Inr [OF this] obtain content m m1 mini where
    r: "contents fsb (manifestPath cb) = Some content" "JSON_parse_utf8 rtb content = Some m"
    and s1: "set_prop m ''accountAssociation'' v = Inr m1"
    and g1: "get_prop m1 ''miniapp'' = Inr mini"
    and br: "if truthy mini
             then (\<exists>mini'. set_prop mini ''homeUrl'' (env_value (domain cb)) = Inr mini'
                          \<and> set_prop m1 ''miniapp'' mini' = Inr m')
             else m' = m1"
    and fsb': "fsb' = fsb\<lparr>contents := (contents fsb)(manifestPath cb \<mapsto>
                     utf8_encode (JSON_stringify_indent2 rtb m'))\<rparr>"
    by blast
  have g: "get_prop m ''miniapp'' = Inr mini"
    using set_prop_frame(2) [OF s1, of "''miniapp''"] g1 by simp
  have w: "contents fsb' (manifestPath cb) = Some (utf8_encode (JSON_stringify_indent2 rtb m'))"
    using fsb' by simp
  have rest: "get_prop m' ''accountAssociation'' = Inr v
         \<and> (if truthy mini
             then same_outside [''accountAssociation'', ''miniapp''] m m'
                  \<and> (\<exists>mini'. get_prop m' ''miniapp'' = Inr mini'
                               \<and> get_prop mini' ''homeUrl'' = Inr (env_value (domain cb))
                               \<and> same_outside [''homeUrl''] mini mini')
             else same_outside [''accountAssociation''] m m')"
  proof (cases "truthy mini")
    case False
    with br have "m' = m1" by simp
    with False s1 show ?thesis
      using set_prop_frame(1) [OF s1] set_prop_frame(3) [OF s1, of "[''accountAssociation'']"]
      by simp
  next
    case True
    with br obtain mini' where
      s2: "set_prop mini ''homeUrl'' (env_value (domain cb)) = Inr mini'"
      and s3: "set_prop m1 ''miniapp'' mini' = Inr m'"
      by auto
    have a: "get_prop m' ''accountAssociation'' = Inr v"
      using set_prop_frame(2) [OF s3, of "''accountAssociation''"] set_prop_frame(1) [OF s1]
      by simp
    have "same_outside [''accountAssociation'', ''miniapp''] m m1"
      using set_prop_frame(3) [OF s1, of "[''accountAssociation'', ''miniapp'']"] by simp
    moreover have "same_outside [''accountAssociation'', ''miniapp''] m1 m'"
      using set_prop_frame(3) [OF s3, of "[''accountAssociation'', ''miniapp'']"] by simp
    ultimately have b: "same_outside [''accountAssociation'', ''miniapp''] m m'"
      by (rule same_outside_trans)
    have c1: "get_prop m' ''miniapp'' = Inr mini'"
      using set_prop_frame(1) [OF s3] .
    have c2: "get_prop mini' ''homeUrl'' = Inr (env_value (domain cb))"
      using set_prop_frame(1) [OF s2] .
    have c3: "same_outside [''homeUrl''] mini mini'"
      using set_prop_frame(3) [OF s2, of "[''homeUrl'']"] by simp
    from True a b c1 c2 c3 show ?thesis by simp
  qed
  show "\<exists>content m mini.
           contents fsb (manifestPath cb) = Some content
         \<and> JSON_parse_utf8 rtb content = Some m
         \<and> contents fsb' (manifestPath cb) = Some (utf8_encode (JSON_stringify_indent2 rtb m'))
         \<and> get_prop m' ''accountAssociation'' = Inr v
         \<and> get_prop m ''miniapp'' = Inr mini
         \<and> (if truthy mini
             then same_outside [''accountAssociation'', ''miniapp''] m m'
                  \<and> (\<exists>mini'. get_prop m' ''miniapp'' = Inr mini'
                               \<and> get_prop mini' ''homeUrl'' = Inr (env_value (domain cb))
                               \<and> same_outside [''homeUrl''] mini mini')
             else same_outside [''accountAssociation''] m m')"
    using r w g rest by (intro exI [of _ content] exI [of _ m] exI [of _ mini]) simp
qed

text \<open>The hypotheses of claim C3's theorem hold on the example, and it applies there.\<close>

theorem merge_witness:
  "exit_status (main example_runtime (toy_engine True) example_config no_files) = 0
   \<and> updateManifest example_runtime example_config old_files
         (association_value example_association)
       = Inr (JObj [(''miniapp'', JObj [(''name'', JStr ''Demo''),
                                        (''homeUrl'', JStr ''example.com'')]),
                    (''accountAssociation'', association_value example_association)],
              old_files\<lparr>contents := (contents old_files)(manifestPath example_config \<mapsto>
                utf8_encode (JSON_stringify_indent2 example_runtime
                  (JObj [(''miniapp'', JObj [(''name'', JStr ''Demo''),
                                             (''homeUrl'', JStr ''example.com'')]),
                         (''accountAssociation'', association_value example_association)])))\<rparr>)
   \<and> same_outside [''accountAssociation'', ''miniapp''] old_manifest
         (JObj [(''miniapp'', JObj [(''name'', JStr ''Demo''),
                                    (''homeUrl'', JStr ''example.com'')]),
                (''accountAssociation'', association_value example_association)])
   \<and> (\<exists>m'. get_prop m' ''accountAssociation'' = Inr (association_value example_association)
            \<and> same_outside [''accountAssociation''] (default_manifest example_config) m')"
proof -
  have p: "parseInt (env_ToString (fid example_config)) None = Some 3621"
    by code_simp
  have d: "domain example_config = Some ''example.com''"
    by (simp add: example_config_def)
  have e: "exit_status (main example_runtime (toy_engine True) example_config no_files) = 0"
    using ex_main [OF ex_validate refl d refl p, of True] by simp
  note u = ex_updateManifest
  have t: "JSON_parse_utf8 example_runtime (utf8_encode old_manifest_text) = Some old_manifest"
    using ex_texts_differ by (simp add: example_runtime_def)
  have f: "contents old_files (manifestPath example_config) = Some (utf8_encode old_manifest_text)"
    by (simp add: old_files_def example_config_def)
  have k: "get_prop old_manifest ''miniapp''
       = Inr (JObj [(''name'', JStr ''Demo''), (''homeUrl'', JStr ''https://old.example'')])"
    by (simp add: old_manifest_def get_prop_def lookup_prop_def)
  have tr: "truthy (JObj [(''name'', JStr ''Demo''), (''homeUrl'', JStr ''https://old.example'')])"
    by (simp add: truthy_def)
  note inst = merge_replaces_accountAssociation
    [where rt = example_runtime and eng = "toy_engine True" and cfg = example_config
       and fs = no_files and rtb = example_runtime and cb = example_config and fsb = old_files
       and v = "association_value example_association"]
  from inst [THEN conjunct1, rule_format, OF e] ex_validate ex_generate [OF refl d p, of True]
    ex_load [OF d]
  have a: "\<exists>m'. get_prop m' ''accountAssociation'' = Inr (association_value example_association)
            \<and> same_outside [''accountAssociation''] (default_manifest example_config) m'"
    by auto
  from inst [THEN conjunct2, rule_format, OF u] t f k tr
  have b: "same_outside [''accountAssociation'', ''miniapp''] old_manifest
         (JObj [(''miniapp'', JObj [(''name'', JStr ''Demo''),
                                    (''homeUrl'', JStr ''example.com'')]),
                (''accountAssociation'', association_value example_association)])"
    by auto
  from e u a b show ?thesis by blast
qed

text \<open>
  Claim C4 says that every check is reported as a flag of its own, whatever fails. The
  function has three guards that return \<^verbatim>\<open>false\<close> instead of a report: the example
  association gives a report with every flag true, and the same association with an
  empty header gives \<^verbatim>\<open>false\<close>, so nothing is reported about its payload, domain or
  signature.
\<close>

theorem undecodable_header_counterexample:
  "verifyAccountAssociation example_runtime (toy_engine True)
       (association_value example_association)
     = Returned \<lparr>headerValid = True, payloadValid = True, domainFormatValid = JBool True,
                 fidValid = JBool True, signatureValid = True,
                 signatureFormat = ''real/ed25519'', canVerifySignature = True,
                 message = ''Real Ed25519 signature verified successfully''\<rparr>
   \<and> verifyAccountAssociation example_runtime (toy_engine True)
         (association_value (example_association\<lparr>header := ''''\<rparr>)) = ReturnedFalse"
proof -
  have "verifyAccountAssociation example_runtime (toy_engine True)
         (association_value (example_association\<lparr>header := ''''\<rparr>)) = ReturnedFalse"
    using verify_strings [OF ex_fields, of example_runtime "toy_engine True"
        "example_association\<lparr>header := ''''\<rparr>"]
    by (simp add: ex_decode_empty truthy_def)
  moreover have "example_association\<lparr>signature := signature example_association\<rparr>
                   = example_association"
    by simp
  ultimately show ?thesis
    using ex_verifyAccountAssociation [of True "signature example_association"] by simp
qed

text \<open>
  Claim C4, amended. For an association whose \<^verbatim>\<open>header\<close>, \<^verbatim>\<open>payload\<close> and \<^verbatim>\<open>signature\<close>
  are strings, \<^verbatim>\<open>verifyAccountAssociation\<close> returns \<^verbatim>\<open>false\<close>, and no report, exactly when
  the header or the payload does not decode to a truthy value or \<^verbatim>\<open>header.key\<close> is not a
  string; it returns a report exactly when none of this is so and \<^verbatim>\<open>payload.domain\<close> is
  falsy or a string. In the report \<open>headerValid\<close>, \<open>payloadValid\<close> and \<open>canVerifySignature\<close>
  are true, \<open>domainFormatValid\<close> is computed from the payload's domain, \<open>fidValid\<close> from
  the header's fid, and \<open>signatureValid\<close> holds exactly when the library's \<^verbatim>\<open>verify\<close>
  returns true (false when it throws). Replacing the stored signature by another string,
  or the library, changes neither which outcome occurs nor any field of the report but
  \<open>signatureValid\<close>, \<open>signatureFormat\<close> and \<open>message\<close>.

  The theorem also says what the function does where it gives neither. With three
  strings it throws only a \<^verbatim>\<open>TypeError\<close>, and only for a \<^verbatim>\<open>payload.domain\<close> that is truthy
  and not a string. An association that is \<^verbatim>\<open>null\<close> or \<^verbatim>\<open>undefined\<close> throws when its header
  is read. A header that is \<^verbatim>\<open>undefined\<close>, \<^verbatim>\<open>null\<close>, a number or a boolean gives \<^verbatim>\<open>false\<close>,
  and so does such a payload once the header has decoded. Once both have decoded, a
  signature that is \<^verbatim>\<open>undefined\<close>, \<^verbatim>\<open>null\<close>, a number or a boolean throws a \<^verbatim>\<open>TypeError\<close>,
  and a signature that is an object throws as well. Nothing is stated for a field that
  is an array, nor for a header or payload that is an object: there the outcome is that
  of the runtime's \<^verbatim>\<open>Buffer.from\<close> and \<^verbatim>\<open>+\<close>.
\<close>

theorem verifyAccountAssociation_outcomes:
  "(get_prop aa ''header'' = Inl e \<longrightarrow> verifyAccountAssociation rt eng aa = Threw e)
   \<and> (get_prop aa ''header'' = Inr hv \<and> no_buffer hv \<longrightarrow>
        verifyAccountAssociation rt eng aa = ReturnedFalse)
   \<and> (get_prop aa ''header'' = Inr hv \<and> truthy (decodeBase64 rt hv)
        \<and> get_prop aa ''payload'' = Inr pv \<and> no_buffer pv \<longrightarrow>
        verifyAccountAssociation rt eng aa = ReturnedFalse)
   \<and> (get_prop aa ''header'' = Inr hv \<and> truthy (decodeBase64 rt hv)
        \<and> get_prop aa ''payload'' = Inr pv \<and> truthy (decodeBase64 rt pv)
        \<and> get_prop aa ''signature'' = Inr sv \<longrightarrow>
        (no_buffer sv \<longrightarrow> verifyAccountAssociation rt eng aa = Threw TypeError)
        \<and> (sv = JObj ps \<longrightarrow> (\<exists>e'. verifyAccountAssociation rt eng aa = Threw e')))
   \<and> (get_prop aa ''header'' = Inr (JStr h) \<and> get_prop aa ''payload'' = Inr (JStr p)
        \<and> get_prop aa ''signature'' = Inr (JStr s) \<longrightarrow>
        (verifyAccountAssociation rt eng aa = ReturnedFalse \<longleftrightarrow>
           \<not> truthy (decodeBase64 rt (JStr h)) \<or> \<not> truthy (decodeBase64 rt (JStr p))
           \<or> (\<forall>k. get_prop (decodeBase64 rt (JStr h)) ''key'' \<noteq> Inr (JStr k)))
        \<and> ((\<exists>r'. verifyAccountAssociation rt eng aa = Returned r') \<longleftrightarrow>
             truthy (decodeBase64 rt (JStr h)) \<and> truthy (decodeBase64 rt (JStr p))
             \<and> (\<exists>k. get_prop (decodeBase64 rt (JStr h)) ''key'' = Inr (JStr k))
             \<and> (\<exists>d. get_prop (decodeBase64 rt (JStr p)) ''domain'' = Inr d
                     \<and> (truthy d \<longrightarrow> (\<exists>t. d = JStr t))))
        \<and> (verifyAccountAssociation rt eng aa = Returned r \<longrightarrow>
             headerValid r \<and> payloadValid r \<and> canVerifySignature r
             \<and> (\<exists>d. get_prop (decodeBase64 rt (JStr p)) ''domain'' = Inr d
                     \<and> domainValid_of d = Inr (domainFormatValid r))
             \<and> (\<exists>f. get_prop (decodeBase64 rt (JStr h)) ''fid'' = Inr f
                     \<and> fidValid r = fidValid_of f)
             \<and> (\<exists>key pub. get_prop (decodeBase64 rt (JStr h)) ''key'' = Inr key
                     \<and> hexToBytes_verifier key = Some pub
                     \<and> signatureValid r =
                         (verify eng (base64_decode s) (utf8_encode (composeMessage h p)) pub
                            = Inr True)))
        \<and> (verifyAccountAssociation rt eng aa = Threw e \<longrightarrow>
             e = TypeError
             \<and> (\<exists>d. get_prop (decodeBase64 rt (JStr p)) ''domain'' = Inr d
                     \<and> truthy d \<and> (\<forall>t. d \<noteq> JStr t)))
        \<and> (get_prop ab ''header'' = Inr (JStr h) \<and> get_prop ab ''payload'' = Inr (JStr p)
             \<and> get_prop ab ''signature'' = Inr (JStr sb) \<longrightarrow>
             unsigned_view (verifyAccountAssociation rt engb ab)
               = unsigned_view (verifyAccountAssociation rt eng aa)))"
proof (intro conjI impI; (elim conjE)?)
  show "verifyAccountAssociation rt eng aa = Threw e" if "get_prop aa ''header'' = Inl e"
    using that by (rule verify_null)
next
  show "verifyAccountAssociation rt eng aa = ReturnedFalse"
    if "get_prop aa ''header'' = Inr hv" "no_buffer hv"
    using that by (rule verify_no_header)
next
  show "verifyAccountAssociation rt eng aa = ReturnedFalse"
    if "get_prop aa ''header'' = Inr hv" "truthy (decodeBase64 rt hv)"
      "get_prop aa ''payload'' = Inr pv" "no_buffer pv"
    using that by (rule verify_no_payload)
next
  show "verifyAccountAssociation rt eng aa = Threw TypeError"
    if "get_prop aa ''header'' = Inr hv" "truthy (decodeBase64 rt hv)"
      "get_prop aa ''payload'' = Inr pv" "truthy (decodeBase64 rt pv)"
      "get_prop aa ''signature'' = Inr sv" "no_buffer sv"
    using that by (rule verify_no_signature)
next
  show "\<exists>e'. verifyAccountAssociation rt eng aa = Threw e'"
    if "get_prop aa ''header'' = Inr hv" "truthy (decodeBase64 rt hv)"
      "get_prop aa ''payload'' = Inr pv" "truthy (decodeBase64 rt pv)"
      "get_prop aa ''signature'' = Inr sv" "sv = JObj ps"
    using that verify_object_signature [of aa hv rt pv ps eng] by simp
next
  assume a: "get_prop aa ''header'' = Inr (JStr h)" "get_prop aa ''payload'' = Inr (JStr p)"
    "get_prop aa ''signature'' = Inr (JStr s)"
  show "verifyAccountAssociation rt eng aa = ReturnedFalse \<longleftrightarrow>
           \<not> truthy (decodeBase64 rt (JStr h)) \<or> \<not> truthy (decodeBase64 rt (JStr p))
           \<or> (\<forall>k. get_prop (decodeBase64 rt (JStr h)) ''key'' \<noteq> Inr (JStr k))"
    by (rule verify_ReturnedFalse [OF a])
next
  assume a: "get_prop aa ''header'' = Inr (JStr h)" "get_prop aa ''payload'' = Inr (JStr p)"
    "get_prop aa ''signature'' = Inr (JStr s)"
  show "(\<exists>r'. verifyAccountAssociation rt eng aa = Returned r') \<longleftrightarrow>
           truthy (decodeBase64 rt (JStr h)) \<and> truthy (decodeBase64 rt (JStr p))
           \<and> (\<exists>k. get_prop (decodeBase64 rt (JStr h)) ''key'' = Inr (JStr k))
           \<and> (\<exists>d. get_prop (decodeBase64 rt (JStr p)) ''domain'' = Inr d
                   \<and> (truthy d \<longrightarrow> (\<exists>t. d = JStr t)))"
    by (rule verify_Returned_iff [OF a])
next
  assume a: "get_prop aa ''header'' = Inr (JStr h)" "get_prop aa ''payload'' = Inr (JStr p)"
    "get_prop aa ''signature'' = Inr (JStr s)"
    and r: "verifyAccountAssociation rt eng aa = Returned r"
  note R = verify_Returned [OF a r]
  show "headerValid r" "payloadValid r" "canVerifySignature r"
    "\<exists>d. get_prop (decodeBase64 rt (JStr p)) ''domain'' = Inr d
         \<and> domainValid_of d = Inr (domainFormatValid r)"
    "\<exists>f. get_prop (decodeBase64 rt (JStr h)) ''fid'' = Inr f \<and> fidValid r = fidValid_of f"
    "\<exists>key pub. get_prop (decodeBase64 rt (JStr h)) ''key'' = Inr key
         \<and> hexToBytes_verifier key = Some pub
         \<and> signatureValid r =
             (verify eng (base64_decode s) (utf8_encode (composeMessage h p)) pub = Inr True)"
    using R by blast+
next
  assume a: "get_prop aa ''header'' = Inr (JStr h)" "get_prop aa ''payload'' = Inr (JStr p)"
    "get_prop aa ''signature'' = Inr (JStr s)"
    and t: "verifyAccountAssociation rt eng aa = Threw e"
  note T = verify_Threw [OF a t]
  show "e = TypeError"
    "\<exists>d. get_prop (decodeBase64 rt (JStr p)) ''domain'' = Inr d \<and> truthy d \<and> (\<forall>t. d \<noteq> JStr t)"
    using T by blast+
next
  assume a: "get_prop aa ''header'' = Inr (JStr h)" "get_prop aa ''payload'' = Inr (JStr p)"
    "get_prop aa ''signature'' = Inr (JStr s)"
    and b: "get_prop ab ''header'' = Inr (JStr h)" "get_prop ab ''payload'' = Inr (JStr p)"
    "get_prop ab ''signature'' = Inr (JStr sb)"
  show "unsigned_view (verifyAccountAssociation rt engb ab)
          = unsigned_view (verifyAccountAssociation rt eng aa)"
    by (rule unsigned_view_independent [OF a b])
qed

text \<open>The hypotheses of claim C4's theorem hold on the examples, and it applies there.\<close>

theorem verifyAccountAssociation_witness:
  "verifyAccountAssociation example_runtime (toy_engine True) JNull = Threw TypeError
   \<and> verifyAccountAssociation example_runtime (toy_engine True) (JObj []) = ReturnedFalse
   \<and> verifyAccountAssociation example_runtime (toy_engine True)
        (JObj [(''header'', JStr (header example_association))]) = ReturnedFalse
   \<and> verifyAccountAssociation example_runtime (toy_engine True)
        (JObj [(''header'', JStr (header example_association)),
               (''payload'', JStr (payload example_association))]) = Threw TypeError
   \<and> (\<exists>e. verifyAccountAssociation example_runtime (toy_engine True)
        (JObj [(''header'', JStr (header example_association)),
               (''payload'', JStr (payload example_association)),
               (''signature'', JObj [])]) = Threw e)
   \<and> verifyAccountAssociation example_runtime (toy_engine False)
       (association_value (example_association\<lparr>signature := ''AAAA''\<rparr>))
     = Returned \<lparr>headerValid = True, payloadValid = True, domainFormatValid = JBool True,
                 fidValid = JBool True, signatureValid = False,
                 signatureFormat = ''invalid'', canVerifySignature = True,
                 message = ''Signature verification failed''\<rparr>
   \<and> truthy (decodeBase64 example_runtime (JStr (header example_association)))
   \<and> truthy (decodeBase64 example_runtime (JStr (payload example_association)))
   \<and> unsigned_view (verifyAccountAssociation example_runtime (toy_engine False)
                       (association_value (example_association\<lparr>signature := ''AAAA''\<rparr>)))
       = unsigned_view (verifyAccountAssociation example_runtime (toy_engine True)
                          (association_value example_association))"
proof -
  let ?h = "header example_association"
  let ?p = "payload example_association"
  let ?a = "example_association\<lparr>signature := ''AAAA''\<rparr>"
  let ?r = "\<lparr>headerValid = True, payloadValid = True, domainFormatValid = JBool True,
             fidValid = JBool True, signatureValid = False,
             signatureFormat = ''invalid'', canVerifySignature = True,
             message = ''Signature verification failed''\<rparr>"
  have th: "truthy (decodeBase64 example_runtime (JStr ?h))"
    by (simp add: ex_decode_header ex_truthy)
  have tp: "truthy (decodeBase64 example_runtime (JStr ?p))"
    by (simp add: ex_decode_payload ex_truthy)
  have nb: "no_buffer JUndefined"
    by (simp add: no_buffer_def)
  have g0: "get_prop JNull ''header'' = Inl TypeError"
    by (simp add: get_prop_def)
  have g1: "get_prop (JObj []) ''header'' = Inr JUndefined"
    by (simp add: get_prop_def lookup_prop_def)
  have g2: "get_prop (JObj [(''header'', JStr ?h)]) ''header'' = Inr (JStr ?h)"
    "get_prop (JObj [(''header'', JStr ?h)]) ''payload'' = Inr JUndefined"
    by (simp_all add: get_prop_def lookup_prop_def)
  have g3: "get_prop (JObj [(''header'', JStr ?h), (''payload'', JStr ?p)]) ''header''
              = Inr (JStr ?h)"
    "get_prop (JObj [(''header'', JStr ?h), (''payload'', JStr ?p)]) ''payload''
              = Inr (JStr ?p)"
    "get_prop (JObj [(''header'', JStr ?h), (''payload'', JStr ?p)]) ''signature''
              = Inr JUndefined"
    by (simp_all add: get_prop_def lookup_prop_def)
  have g4: "get_prop (JObj [(''header'', JStr ?h), (''payload'', JStr ?p),
                            (''signature'', JObj [])]) ''header'' = Inr (JStr ?h)"
    "get_prop (JObj [(''header'', JStr ?h), (''payload'', JStr ?p),
                     (''signature'', JObj [])]) ''payload'' = Inr (JStr ?p)"
    "get_prop (JObj [(''header'', JStr ?h), (''payload'', JStr ?p),
                     (''signature'', JObj [])]) ''signature'' = Inr (JObj [])"
    by (simp_all add: get_prop_def lookup_prop_def)
  have c1: "verifyAccountAssociation example_runtime (toy_engine True) JNull = Threw TypeError"
    using verifyAccountAssociation_outcomes
      [where aa = JNull and e = TypeError and rt = example_runtime and eng = "toy_engine True"]
      g0
    by blast
  have c2: "verifyAccountAssociation example_runtime (toy_engine True) (JObj []) = ReturnedFalse"
    using verifyAccountAssociation_outcomes
      [where aa = "JObj []" and hv = JUndefined and rt = example_runtime
         and eng = "toy_engine True"]
      g1 nb
    by blast
  have c3: "verifyAccountAssociation example_runtime (toy_engine True)
        (JObj [(''header'', JStr ?h)]) = ReturnedFalse"
    using verifyAccountAssociation_outcomes
      [where aa = "JObj [(''header'', JStr ?h)]" and hv = "JStr ?h" and pv = JUndefined
         and rt = example_runtime and eng = "toy_engine True"]
      g2 nb th
    by blast
  have c4: "verifyAccountAssociation example_runtime (toy_engine True)
        (JObj [(''header'', JStr ?h), (''payload'', JStr ?p)]) = Threw TypeError"
    using verifyAccountAssociation_outcomes
      [where aa = "JObj [(''header'', JStr ?h), (''payload'', JStr ?p)]"
         and hv = "JStr ?h" and pv = "JStr ?p" and sv = JUndefined
         and rt = example_runtime and eng = "toy_engine True"]
      g3 nb th tp
    by blast
  have c5: "\<exists>e. verifyAccountAssociation example_runtime (toy_engine True)
        (JObj [(''header'', JStr ?h), (''payload'', JStr ?p), (''signature'', JObj [])])
          = Threw e"
    using verifyAccountAssociation_outcomes
      [where aa = "JObj [(''header'', JStr ?h), (''payload'', JStr ?p),
                         (''signature'', JObj [])]"
         and hv = "JStr ?h" and pv = "JStr ?p" and sv = "JObj []" and ps = "[]"
         and rt = example_runtime and eng = "toy_engine True"]
      g4 th tp
    by blast
  have r: "verifyAccountAssociation example_runtime (toy_engine False) (association_value ?a)
             = Returned ?r"
    using ex_verifyAccountAssociation [of False "''AAAA''"] by simp
  have fa: "get_prop (association_value example_association) ''header'' = Inr (JStr ?h)"
    "get_prop (association_value example_association) ''payload'' = Inr (JStr ?p)"
    "get_prop (association_value example_association) ''signature''
       = Inr (JStr (signature example_association))"
    by (rule ex_fields)+
  have fb: "get_prop (association_value ?a) ''header'' = Inr (JStr ?h)"
    "get_prop (association_value ?a) ''payload'' = Inr (JStr ?p)"
    "get_prop (association_value ?a) ''signature'' = Inr (JStr ''AAAA'')"
    using ex_fields [of ?a] by simp_all
  have u: "unsigned_view (verifyAccountAssociation example_runtime (toy_engine False)
                            (association_value ?a))
       = unsigned_view (verifyAccountAssociation example_runtime (toy_engine True)
                          (association_value example_association))"
    using verifyAccountAssociation_outcomes
      [where aa = "association_value example_association" and h = ?h and p = ?p
         and s = "signature example_association" and rt = example_runtime
         and eng = "toy_engine True" and ab = "association_value ?a" and sb = "''AAAA''"
         and engb = "toy_engine False"]
      fa fb
    by blast
  from c1 c2 c3 c4 c5 r th tp u show ?thesis by blast
qed

text \<open>
  Claim C5 says that \<^verbatim>\<open>hexToBytes\<close> fails on a string of odd length or with a character
  that is not a hexadecimal digit. It does not: \<^verbatim>\<open>zz\<close> gives the byte 0 (\<^verbatim>\<open>parseInt\<close> is
  \<^verbatim>\<open>NaN\<close>, stored as 0) and \<^verbatim>\<open>abc\<close> gives the byte \<^verbatim>\<open>0xab\<close> (the last character has no
  place in the array), in the generator and in the verifier.
\<close>

theorem hexToBytes_malformed_counterexample:
  "hexToBytes (JStr ''zz'') = Inr [0] \<and> hexToBytes (JStr ''abc'') = Inr [171]
   \<and> hexToBytes_verifier (JStr ''zz'') = Some [0]
   \<and> hexToBytes_verifier (JStr ''abc'') = Some [171]"
  by code_simp

text \<open>
  Claim C5, amended. \<^verbatim>\<open>hexToBytes\<close> checks nothing and returns a byte array for every
  string: after one leading \<^verbatim>\<open>0x\<close> is removed, half as many bytes as there are characters
  (rounded down), byte \<open>k\<close> being what \<^verbatim>\<open>parseInt\<close> reads in radix 16 from the two
  characters at \<open>2 * k\<close>, taken modulo 256, and 0 when it reads no digit.
\<close>

theorem hexToBytes_never_fails_on_strings:
  "hexToBytes (JStr s) =
     Inr (map (byteAt (replace_prefix ''0x'' s)) [0 ..< length (replace_prefix ''0x'' s) div 2])
   \<and> hexToBytes_verifier (JStr s) =
     Some (map (byteAt (replace_prefix ''0x'' s)) [0 ..< length (replace_prefix ''0x'' s) div 2])"
  by (simp add: hexToBytes_string hexToBytes_verifier_def)

text \<open>
  Claim C6 says that a validated domain has no protocol prefix and no trailing slash.
  \<^verbatim>\<open>validateConfig\<close> removes a leading prefix and has nothing about a slash: the domain
  \<^verbatim>\<open>example.com/\<close> passes validation as it is.
\<close>

theorem validated_domain_counterexample:
  "validateConfig (example_config\<lparr>domain := Some ''example.com/''\<rparr>)
     = Inr (example_config\<lparr>domain := Some ''example.com/''\<rparr>)
   \<and> ends_with_slash ''example.com/''"
  by code_simp

text \<open>
  Claim C6, amended. When validation succeeds a domain was supplied and is not empty, and
  the fid, the private key and the manifest path are the supplied ones. If the supplied
  domain does not start with two protocol prefixes in a row, the validated domain is the
  supplied one less its leading \<^verbatim>\<open>http://\<close> or \<^verbatim>\<open>https://\<close>, if it has one, and has no
  protocol prefix. A trailing slash is not removed: if the supplied domain ends with a
  slash, so does the validated one, unless the validated domain is empty.
\<close>

theorem validated_domain_prefix_and_slash:
  assumes "validateConfig c = Inr c'"
  shows "\<exists>d d'. domain c = Some d \<and> d \<noteq> [] \<and> domain c' = Some d'
             \<and> fid c' = fid c \<and> privateKey c' = privateKey c
             \<and> manifestPath c' = manifestPath c
             \<and> (\<not> doubled_protocol d \<longrightarrow> d' = strip_protocol d \<and> \<not> has_protocol d')
             \<and> (ends_with_slash d \<and> d' \<noteq> [] \<longrightarrow> ends_with_slash d')"
proof -
  from assms have nm: "\<not> malformed_config c"
    and c': "c' = c\<lparr>domain := Some (strip_protocol (env_ToString (domain c)))\<rparr>"
    by (simp_all add: validateConfig_cases split: if_splits)
  from nm obtain d where d: "domain c = Some d" "d \<noteq> []"
    by (cases "domain c") (simp_all add: malformed_config_def falsy_env_def)
  from d c' have "domain c' = Some (strip_protocol d)" "fid c' = fid c"
    "privateKey c' = privateKey c" "manifestPath c' = manifestPath c"
    by (simp_all add: env_ToString_def)
  then show ?thesis
    using d has_protocol_strip [of d] strip_protocol_keeps_slash [of d]
    by blast
qed

text \<open>The hypotheses of claim C6's theorem hold on the example, and it applies there.\<close>

theorem validated_domain_witness:
  "validateConfig (example_config\<lparr>domain := Some ''https://example.com/''\<rparr>)
     = Inr (example_config\<lparr>domain := Some ''example.com/''\<rparr>)
   \<and> \<not> doubled_protocol ''https://example.com/''
   \<and> ends_with_slash ''https://example.com/''
   \<and> strip_protocol ''https://example.com/'' = ''example.com/''
   \<and> \<not> has_protocol ''example.com/'' \<and> ends_with_slash ''example.com/''"
proof -
  have v: "validateConfig (example_config\<lparr>domain := Some ''https://example.com/''\<rparr>)
             = Inr (example_config\<lparr>domain := Some ''example.com/''\<rparr>)"
    by code_simp
  have s: "strip_protocol ''https://example.com/'' = ''example.com/''"
    by code_simp
  have d: "\<not> doubled_protocol ''https://example.com/''" "ends_with_slash ''https://example.com/''"
    by code_simp+
  from validated_domain_prefix_and_slash [OF v] s d
  have "\<not> has_protocol ''example.com/'' \<and> ends_with_slash ''example.com/''"
    by (simp add: example_config_def)
  with v s d show ?thesis by simp
qed

text \<open>
  Claim C7 says that a configuration with a non-numeric account id, a private key that is
  not 64 hexadecimal digits or a missing variable is turned down before any cryptographic
  work. The comment and the message of \<^verbatim>\<open>validateConfig\<close> say the same of the account id
  (\<^verbatim>\<open>Validate FID is a number\<close>, \<^verbatim>\<open>FARCASTER_FID must be a valid number\<close>), but its test is
  \<^verbatim>\<open>isNaN(parseInt(fid))\<close>, and \<^verbatim>\<open>parseInt\<close> reads the digits a string starts with. The
  account id \<^verbatim>\<open>3621abc\<close> is not a number; it passes validation, and the run derives the
  key, signs and verifies, for the account 3621.
\<close>

theorem non_numeric_fid_is_accepted:
  "\<not> decimal_digits ''3621abc''
   \<and> validateConfig (example_config\<lparr>fid := Some ''3621abc''\<rparr>)
       = Inr (example_config\<lparr>fid := Some ''3621abc''\<rparr>)
   \<and> parseInt ''3621abc'' None = Some 3621
   \<and> crypto (main example_runtime (toy_engine True)
               (example_config\<lparr>fid := Some ''3621abc''\<rparr>) no_files)
       = [GetPublicKey (replicate 32 1),
          Sign (utf8_encode (composeMessage (header example_association)
                                            (payload example_association)))
               (replicate 32 1),
          Verify (replicate 64 7)
                 (utf8_encode (composeMessage (header example_association)
                                              (payload example_association)))
                 (replicate 32 2)]
   \<and> exit_status (main example_runtime (toy_engine True)
                    (example_config\<lparr>fid := Some ''3621abc''\<rparr>) no_files) = 0"
proof -
  let ?c = "example_config\<lparr>fid := Some ''3621abc''\<rparr>"
  have n: "\<not> decimal_digits ''3621abc''"
    by code_simp
  have v: "validateConfig ?c = Inr ?c"
    by code_simp
  have p: "parseInt (env_ToString (fid ?c)) None = Some 3621"
    by code_simp
  have q: "parseInt ''3621abc'' None = Some 3621"
    by code_simp
  have d: "domain ?c = Some ''example.com''"
    by (simp add: example_config_def)
  show ?thesis
    using n v q ex_main [OF v _ d _ p, of True] by simp
qed

text \<open>
  What \<^verbatim>\<open>validateConfig\<close> does turn down. When one of the three variables is absent or
  empty, or \<^verbatim>\<open>parseInt\<close> of the account id is \<^verbatim>\<open>NaN\<close>, or the private key less one leading
  \<^verbatim>\<open>0x\<close> is not exactly 64 hexadecimal digits, validation ends the process with status 1,
  no file is touched and no call is made into the Ed25519 library. Every other
  configuration passes validation.
\<close>

theorem malformed_config_aborts_before_crypto:
  "(malformed_config c \<longrightarrow>
      validateConfig c = Inl 1
      \<and> main rt eng c fs = \<lparr>exit_status = 1, files = fs, crypto = []\<rparr>)
   \<and> (\<not> malformed_config c \<longrightarrow> (\<exists>c'. validateConfig c = Inr c'))"
  by (simp add: validateConfig_cases main_rejected)

text \<open>The hypotheses of that theorem hold on the example, and it applies there.\<close>

theorem malformed_config_witness:
  "malformed_config (example_config\<lparr>fid := Some ''alice''\<rparr>)
   \<and> main example_runtime (toy_engine True) (example_config\<lparr>fid := Some ''alice''\<rparr>) no_files
       = \<lparr>exit_status = 1, files = no_files, crypto = []\<rparr>
   \<and> \<not> malformed_config example_config"
proof -
  have m: "malformed_config (example_config\<lparr>fid := Some ''alice''\<rparr>)"
    by code_simp
  have n: "\<not> malformed_config example_config"
    by code_simp
  from malformed_config_aborts_before_crypto
         [of "example_config\<lparr>fid := Some ''alice''\<rparr>" example_runtime "toy_engine True" no_files]
       m n
  show ?thesis by blast
qed

text \<open>
  Claim C8. For every byte sequence \<open>b\<close>, \<^verbatim>\<open>hexToBytes(bytesToHex(b))\<close> returns \<open>b\<close>;
  \<^verbatim>\<open>bytesToHex\<close> writes lowercase hexadecimal digits only (so no \<^verbatim>\<open>0x\<close> prefix), two
  characters for every byte, byte after byte.
\<close>

theorem hexToBytes_bytesToHex_roundtrip:
  "hexToBytes (JStr (bytesToHex b)) = Inr b
   \<and> length (bytesToHex b) = 2 * length b
   \<and> set (bytesToHex b) \<subseteq> set ''0123456789abcdef''
   \<and> bytesToHex (b @ c) = bytesToHex b @ bytesToHex c"
  by (simp only: hexToBytes_bytesToHex length_bytesToHex set_bytesToHex simp_thms)
     (simp add: bytesToHex_def)

text \<open>
  Claim C9. \<^verbatim>\<open>composeMessage\<close> is the header, a period and the payload; on strings over
  the base64 alphabet two messages are equal only when both headers and both payloads
  are.
\<close>

theorem composeMessage_injective_on_base64:
  assumes "base64_string h" "base64_string p" "base64_string h'" "base64_string p'"
  shows "composeMessage h p = h @ ''.'' @ p
         \<and> (composeMessage h p = composeMessage h' p' \<longleftrightarrow> h = h' \<and> p = p')"
proof -
  have nd: "CHR ''.'' \<notin> set h" "CHR ''.'' \<notin> set h'"
    using assms by (simp_all add: base64_string_no_dot)
  have "h = h' \<and> p = p'" if "composeMessage h p = composeMessage h' p'"
    using that split_at_first_dot [OF nd, of p p'] by (simp add: composeMessage_def)
  moreover have "composeMessage h p = h @ ''.'' @ p"
    by (simp add: composeMessage_def)
  ultimately show ?thesis by blast
qed

text \<open>The hypotheses of claim C9's theorem hold on the example, and it applies there.\<close>

theorem composeMessage_injective_witness:
  "base64_string (header example_association) \<and> base64_string (payload example_association)
   \<and> composeMessage (header example_association) (payload example_association)
       \<noteq> composeMessage (payload example_association) (header example_association)"
proof -
  define h0 where "h0 = header example_association"
  define p0 where "p0 = payload example_association"
  have h: "base64_string h0"
    unfolding h0_def by code_simp
  have p: "base64_string p0"
    unfolding p0_def by code_simp
  have ne: "h0 \<noteq> p0"
    unfolding h0_def p0_def by code_simp
  from composeMessage_injective_on_base64 [OF h p p h] ne
  have "composeMessage h0 p0 \<noteq> composeMessage p0 h0" by blast
  with h p show ?thesis unfolding h0_def p0_def by blast
qed

text \<open>
  Claim C10. Whenever \<^verbatim>\<open>generateAccountAssociation\<close> returns an association, its stored
  signature decodes from base64 to exactly the bytes the library's \<^verbatim>\<open>sign\<close> returned for
  the message, although they went through \<^verbatim>\<open>0x\<close>-prefixed hexadecimal text and
  \<^verbatim>\<open>hexToBytes\<close> on the way.
\<close>

theorem generated_signature_decodes_to_signed_bytes:
  assumes "generateAccountAssociation rt eng c = (calls, Inr a)"
  shows "\<exists>privateKeyBytes publicKey signatureBytes.
           hexToBytes (env_value (privateKey c)) = Inr privateKeyBytes
         \<and> getPublicKey eng privateKeyBytes = Inr publicKey
         \<and> sign eng (utf8_encode (composeMessage (header a) (payload a))) privateKeyBytes
              = Inr signatureBytes
         \<and> hexToBytes (JStr (''0x'' @ bytesToHex signatureBytes)) = Inr signatureBytes
         \<and> signature a = base64_encode signatureBytes
         \<and> base64_decode (signature a) = signatureBytes"
proof -
  from assms obtain priv where priv: "hexToBytes (env_value (privateKey c)) = Inr priv"
    by (cases "hexToBytes (env_value (privateKey c))")
       (simp_all add: generateAccountAssociation_def)
  from assms priv obtain pub where pub: "getPublicKey eng priv = Inr pub"
    by (cases "getPublicKey eng priv") (simp_all add: generateAccountAssociation_def)
  define h where "h = createHeader rt (fid c) pub"
  define p where "p = createPayload rt (domain c)"
  from assms priv pub obtain sg where sg: "sign eng (utf8_encode (composeMessage h p)) priv = Inr sg"
    by (cases "sign eng (utf8_encode (composeMessage h p)) priv")
       (simp_all add: generateAccountAssociation_def signMessage_def Let_def h_def p_def)
  from assms priv pub sg
  have a: "a = \<lparr>header = h, payload = p, signature = base64_encode sg\<rparr>"
    by (simp add: generateAccountAssociation_def signMessage_def Let_def h_def p_def
        hexToBytes_prefixed)
  show ?thesis
    using priv pub sg a by (simp add: hexToBytes_prefixed base64_decode_encode)
qed

text \<open>The hypotheses of claim C10's theorem hold on the example, and it applies there.\<close>

theorem generated_signature_witness:
  "generateAccountAssociation example_runtime (toy_engine True) example_config
     = ([GetPublicKey (replicate 32 1),
         Sign (utf8_encode (composeMessage (header example_association)
                                           (payload example_association)))
              (replicate 32 1)],
        Inr example_association)
   \<and> base64_decode (signature example_association) = replicate 64 7"
proof -
  have p: "parseInt (env_ToString (fid example_config)) None = Some 3621"
    by code_simp
  have d: "domain example_config = Some ''example.com''"
    by (simp add: example_config_def)
  note g = ex_generate [OF refl d p, of True]
  from generated_signature_decodes_to_signed_bytes [OF g]
  obtain priv sg where "sign (toy_engine True)
       (utf8_encode (composeMessage (header example_association) (payload example_association)))
       priv = Inr sg" "base64_decode (signature example_association) = sg"
    by blast
  then have "base64_decode (signature example_association) = replicate 64 7"
    by (simp add: toy_engine_def)
  with g show ?thesis by (simp)
qed

end
